theory Spec2Isabelle
  imports Complex_Main
begin

section \<open>The episodic control loop of \<^verbatim>\<open>EnvTalosDeburringHer\<close>\<close>

text \<open>
  A shallow embedding of \<^verbatim>\<open>gym_talos/envs/env_talos_deburring_her.py\<close>.

  Conventions of the embedding:
  \<^item> A finite Python or numpy float is a \<^typ>\<open>real\<close>: rounding and overflow of
    float64 are not modelled. The one place where the source can leave the finite
    numbers, the division by the normalisation range, produces the value
    \<open>NonFinite\<close> of the type \<open>npfloat\<close> below.
  \<^item> A one-dimensional numpy array is a list; numpy's broadcasting rule for two
    one-dimensional operands is written out, and a shape mismatch is the error
    \<open>ValueError\<close> that numpy raises.
  \<^item> The exceptions a call can raise are values of the type \<open>error\<close>; a method that
    mutates \<^verbatim>\<open>self\<close> returns the updated environment, also when it raises.
  \<^item> The physics simulator, the pinocchio kinematics and the goal sampler are external:
    they are a record of functions over an abstract world state, taken as total.
\<close>

subsection \<open>Exceptions\<close>

datatype error = ValueError | ZeroDivisionError | AttributeError | KeyError | IndexError

fun bind_err :: "error + 'a \<Rightarrow> ('a \<Rightarrow> error + 'b) \<Rightarrow> error + 'b" where
  "bind_err (Inl e) f = Inl e"
| "bind_err (Inr x) f = f x"

subsection \<open>numpy floats that may have left the finite numbers\<close>

text \<open>
  \<open>NonFinite\<close> stands for \<^verbatim>\<open>inf\<close>, \<^verbatim>\<open>-inf\<close> or \<^verbatim>\<open>nan\<close>. Sums, differences and products
  with a non-finite operand are non-finite again (\<^verbatim>\<open>0 * inf\<close> is \<^verbatim>\<open>nan\<close>), so the three
  need not be told apart for the arithmetic of this file.
\<close>

datatype npfloat = Fin real | NonFinite

fun fadd :: "npfloat \<Rightarrow> npfloat \<Rightarrow> npfloat" where
  "fadd (Fin a) (Fin b) = Fin (a + b)"
| "fadd _ _ = NonFinite"

fun fsub :: "npfloat \<Rightarrow> npfloat \<Rightarrow> npfloat" where
  "fsub (Fin a) (Fin b) = Fin (a - b)"
| "fsub _ _ = NonFinite"

fun fmul :: "npfloat \<Rightarrow> npfloat \<Rightarrow> npfloat" where
  "fmul (Fin a) (Fin b) = Fin (a * b)"
| "fmul _ _ = NonFinite"

fun fsqrt :: "npfloat \<Rightarrow> npfloat" where
  "fsqrt (Fin a) = Fin (sqrt a)"
| "fsqrt NonFinite = NonFinite"

text \<open>
  numpy's true division of two finite floats: a zero divisor gives \<^verbatim>\<open>inf\<close>, \<^verbatim>\<open>-inf\<close> or
  \<^verbatim>\<open>nan\<close> and a \<^verbatim>\<open>RuntimeWarning\<close>; it raises nothing.
\<close>

definition np_true_divide :: "real \<Rightarrow> real \<Rightarrow> npfloat" where
  "np_true_divide a b = (if b = 0 then NonFinite else Fin (a / b))"

text \<open>
  \<^verbatim>\<open>d < t\<close> for a Euclidean norm \<open>d\<close> and a finite \<open>t\<close>. A norm that is not finite is
  \<^verbatim>\<open>inf\<close> or \<^verbatim>\<open>nan\<close>, never \<^verbatim>\<open>-inf\<close>, and both compare false.
\<close>

fun norm_less :: "npfloat \<Rightarrow> real \<Rightarrow> bool" where
  "norm_less (Fin d) t = (d < t)"
| "norm_less NonFinite t = False"

subsection \<open>One-dimensional arrays\<close>

text \<open>
  \<^verbatim>\<open>a op b\<close> for arrays of shapes \<^verbatim>\<open>(n,)\<close> and \<^verbatim>\<open>(m,)\<close>: elementwise when \<open>n = m\<close>, the
  single element repeated when one of them has length one, \<^verbatim>\<open>ValueError\<close> otherwise.
\<close>

definition np_broadcast :: "('a \<Rightarrow> 'b \<Rightarrow> 'c) \<Rightarrow> 'a list \<Rightarrow> 'b list \<Rightarrow> error + 'c list" where
  "np_broadcast f xs ys =
     (if length xs = length ys then Inr (map2 f xs ys)
      else if length xs = 1 then Inr (map (f (hd xs)) ys)
      else if length ys = 1 then Inr (map (\<lambda>x. f x (hd ys)) xs)
      else Inl ValueError)"

text \<open>\<^verbatim>\<open>(a op b).any()\<close> for a comparison \<open>op\<close>.\<close>

definition np_any :: "('a \<Rightarrow> 'b \<Rightarrow> bool) \<Rightarrow> 'a list \<Rightarrow> 'b list \<Rightarrow> error + bool" where
  "np_any f xs ys = bind_err (np_broadcast f xs ys) (\<lambda>bs. Inr (list_ex (\<lambda>b. b) bs))"

text \<open>\<^verbatim>\<open>c * a\<close> for a scalar \<open>c\<close>.\<close>

definition np_scale :: "real \<Rightarrow> real list \<Rightarrow> real list" where
  "np_scale c xs = map (\<lambda>x. c * x) xs"

text \<open>\<^verbatim>\<open>np.sum\<close> of a one-dimensional array.\<close>

definition np_sum :: "npfloat list \<Rightarrow> npfloat" where
  "np_sum xs = foldl fadd (Fin 0) xs"

text \<open>\<^verbatim>\<open>np.linalg.norm\<close> of a one-dimensional array: the square root of the sum of squares.\<close>

definition np_norm :: "npfloat list \<Rightarrow> npfloat" where
  "np_norm xs = fsqrt (np_sum (map (\<lambda>x. fmul x x) xs))"

text \<open>\<^verbatim>\<open>x[-n:]\<close>: the last \<open>n\<close> entries; \<^verbatim>\<open>x[-0:]\<close> is the whole array.\<close>

definition py_last :: "nat \<Rightarrow> 'a list \<Rightarrow> 'a list" where
  "py_last n xs = (if n = 0 then xs else drop (length xs - n) xs)"

text \<open>Python's \<^verbatim>\<open>int(x)\<close> on a finite float truncates towards zero.\<close>

definition py_int :: "real \<Rightarrow> int" where
  "py_int x = (if 0 \<le> x then \<lfloor>x\<rfloor> else \<lceil>x\<rceil>)"

subsection \<open>Two-dimensional arrays\<close>

text \<open>\<^verbatim>\<open>np.diag(v)\<close>: the square matrix, as a list of rows, with \<open>v\<close> on its diagonal.\<close>

definition np_diag :: "real list \<Rightarrow> real list list" where
  "np_diag v = map (\<lambda>i. (replicate (length v) 0)[i := v ! i]) [0..<length v]"

text \<open>
  \<^verbatim>\<open>a * M\<close> for a one-dimensional \<open>a\<close> and a two-dimensional \<open>M\<close> whose rows have length
  \<open>c\<close>: \<open>a\<close> is broadcast against every row. A matrix without rows has shape \<^verbatim>\<open>(0, c)\<close>,
  so the row length is passed along.
\<close>

fun np_rows :: "nat \<Rightarrow> npfloat list \<Rightarrow> npfloat list list \<Rightarrow> error + npfloat list list" where
  "np_rows c a [] =
     (if length a = c \<or> length a = 1 \<or> c = 1 then Inr [] else Inl ValueError)"
| "np_rows c a (r # rs) =
     bind_err (np_broadcast fmul a r) (\<lambda>r'.
     bind_err (np_rows c a rs) (\<lambda>rs'. Inr (r' # rs')))"

text \<open>\<^verbatim>\<open>np.sum\<close> of a two-dimensional array: the sum of all entries.\<close>

definition np_sum2 :: "npfloat list list \<Rightarrow> npfloat" where
  "np_sum2 m = np_sum (concat m)"

subsection \<open>Data\<close>

text \<open>
  \<^verbatim>\<open>params_env\<close>: the keys read with \<^verbatim>\<open>params_env[key]\<close> are fields, the keys read
  under \<^verbatim>\<open>try ... except KeyError\<close> are optional fields.
\<close>

record params_env =
  p_timeStepSimulation :: real
  p_numSimulationSteps :: int
  p_normalizeObs :: bool
  p_maxTime :: real
  p_w_target_pos :: real
  p_w_control_reg :: real
  p_w_penalization_truncation :: real
  p_randomInit :: "bool option"
  p_limitPosScale :: "real option"
  p_limitVelScale :: "real option"
  p_torqueScaleCoeff :: "real option"
  p_lowerLimitPos :: "real list option"
  p_upperLimitPos :: "real list option"
  p_thresholdSuccess :: "real option"
  p_w_target_reached :: "real option"
  p_w_joints_to_init :: "(string \<times> real) list option option"
  p_rewardType :: "string option"
  p_w_alive :: "real option"

text \<open>The attributes that \<^verbatim>\<open>_init_parameters\<close> assigns.\<close>

record config =
  timeStepSimulation :: real
  numSimulationSteps :: int
  normalizeObs :: bool
  maxTime :: real
  weight_target :: real
  weight_command :: real
  weight_truncation :: real
  GUI :: bool
  random_init_robot :: bool
  limitPosScale :: real
  limitVelScale :: real
  torqueScaleCoeff :: real
  lowerLimitPos :: "real list"
  upperLimitPos :: "real list"
  threshold_success :: real
  weight_target_reached :: real
  weight_joints_to_init :: "(string \<times> real) list option"
  reward_type :: string
  weight_alive :: real

text \<open>What the environment reads of pinocchio's reduced model \<^verbatim>\<open>self.rmodel\<close>.\<close>

record rmodel =
  nq :: nat
  nv :: nat
  effortLimit :: "real list"
  lowerPositionLimit :: "real list"
  upperPositionLimit :: "real list"
  velocityLimit :: "real list"

text \<open>The attributes that \<^verbatim>\<open>_init_obsNormalizer\<close> assigns.\<close>

record obs_normalizer =
  lowerObsLim :: "real list"
  upperObsLim :: "real list"
  avgObs :: "real list"
  diffObs :: "real list"

text \<open>
  The attributes that \<^verbatim>\<open>_init_goalNormalizer\<close> and \<^verbatim>\<open>_init_targetNormalizer\<close> assign
  (both assign the same four).
\<close>

record goal_normalizer =
  lowerGoalLim :: "real list"
  upperGoalLim :: "real list"
  avgGoal :: "real list"
  diffGoal :: "real list"

text \<open>
  The external collaborators over a world state \<open>'w\<close>: the simulator
  (\<^verbatim>\<open>reset\<close>, \<^verbatim>\<open>step\<close>, \<^verbatim>\<open>getRobotState\<close>, \<^verbatim>\<open>getRobotPos\<close>, the attributes \<^verbatim>\<open>qC0\<close> and
  \<^verbatim>\<open>dict_pos\<close>), the kinematics of \<^verbatim>\<open>TalosDesigner\<close>, which rest on pinocchio
  (\<^verbatim>\<open>update_reduced_model\<close>, \<^verbatim>\<open>get_end_effector_pos\<close>, \<^verbatim>\<open>get_CoM\<close>), and the goal sampler
  \<^verbatim>\<open>TargetGoal.create_target\<close>, which returns the sampled \<^verbatim>\<open>position_target\<close>.
\<close>

record 'w collaborators =
  sim_reset :: "real list \<Rightarrow> 'w \<Rightarrow> 'w"
  sim_step :: "real list \<Rightarrow> 'w \<Rightarrow> 'w"
  getRobotState :: "'w \<Rightarrow> real list"
  getRobotPos :: "'w \<Rightarrow> real list"
  qC0 :: "'w \<Rightarrow> real list"
  dict_pos :: "string \<Rightarrow> nat option"
  update_reduced_model :: "real list \<Rightarrow> real list \<Rightarrow> 'w \<Rightarrow> 'w"
  get_end_effector_pos :: "'w \<Rightarrow> real list"
  get_CoM :: "'w \<Rightarrow> real list"
  create_target :: "'w \<Rightarrow> real list \<times> 'w"

text \<open>
  The environment object. An attribute that is assigned only on some paths
  (\<^verbatim>\<open>avgObs\<close> and its siblings, \<^verbatim>\<open>rCoM\<close>) is optional; reading it while it is unassigned
  is Python's \<^verbatim>\<open>AttributeError\<close>.
\<close>

record 'w env =
  cfg :: config
  rmodel :: rmodel
  mat_dt_init :: "real list list"
  timer :: int
  on_target :: int
  maxStep :: int
  torqueScale :: "real list"
  obsNorm :: "obs_normalizer option"
  goalNorm :: "goal_normalizer option"
  position_target :: "real list"
  rCoM :: "real list option"
  world :: 'w

text \<open>The dictionary of three arrays that \<^verbatim>\<open>_getObservation\<close> returns.\<close>

record obs =
  observation :: "npfloat list"
  achieved_goal :: "npfloat list"
  desired_goal :: "npfloat list"

text \<open>The \<^verbatim>\<open>infos\<close> dictionary of \<^verbatim>\<open>_reward\<close>; \<^verbatim>\<open>step\<close> adds \<^verbatim>\<open>is_success\<close> on a final step.\<close>

record infos =
  info_param_rew :: "npfloat list"
  info_tor :: real
  info_init :: npfloat
  info_dst :: npfloat
  info_on_target :: bool
  info_is_success :: "bool option"

text \<open>The \<^verbatim>\<open>infos\<close> dictionary of \<^verbatim>\<open>reset\<close>.\<close>

record reset_infos =
  rinfo_dst :: real
  rinfo_tor :: real
  rinfo_init :: real

text \<open>What \<^verbatim>\<open>step\<close> returns.\<close>

record step_result =
  res_ob :: obs
  res_reward :: npfloat
  res_terminated :: bool
  res_truncated :: bool
  res_infos :: infos

subsection \<open>Construction\<close>

definition init_parameters :: "params_env \<Rightarrow> bool \<Rightarrow> config" where
  "init_parameters p gui =
     \<lparr> timeStepSimulation = p_timeStepSimulation p,
       numSimulationSteps = p_numSimulationSteps p,
       normalizeObs = p_normalizeObs p,
       maxTime = p_maxTime p,
       weight_target = p_w_target_pos p,
       weight_command = p_w_control_reg p,
       weight_truncation = p_w_penalization_truncation p,
       GUI = gui,
       random_init_robot = (case p_randomInit p of Some b \<Rightarrow> b | None \<Rightarrow> False),
       limitPosScale = (case p_limitPosScale p of Some x \<Rightarrow> x | None \<Rightarrow> 10),
       limitVelScale = (case p_limitVelScale p of Some x \<Rightarrow> x | None \<Rightarrow> 30),
       torqueScaleCoeff = (case p_torqueScaleCoeff p of Some x \<Rightarrow> x | None \<Rightarrow> 1),
       lowerLimitPos = (case p_lowerLimitPos p of Some v \<Rightarrow> v | None \<Rightarrow> [- 0.5, - 0.5, 0.9]),
       upperLimitPos = (case p_upperLimitPos p of Some v \<Rightarrow> v | None \<Rightarrow> [0.5, 0.5, 1.5]),
       threshold_success = (case p_thresholdSuccess p of Some x \<Rightarrow> x | None \<Rightarrow> 0.05),
       weight_target_reached = (case p_w_target_reached p of Some x \<Rightarrow> x | None \<Rightarrow> 5),
       weight_joints_to_init = (case p_w_joints_to_init p of Some d \<Rightarrow> d | None \<Rightarrow> None),
       reward_type = (case p_rewardType p of Some s \<Rightarrow> s | None \<Rightarrow> ''dense''),
       weight_alive = (case p_w_alive p of Some x \<Rightarrow> x | None \<Rightarrow> 1) \<rparr>"

text \<open>
  The loop \<^verbatim>\<open>for key, value in self.weight_joints_to_init.items():
  self.mat_dt_init[self.order_positions[key]] = value\<close>.
\<close>

fun set_joint_weights :: "(string \<Rightarrow> nat option) \<Rightarrow> (string \<times> real) list \<Rightarrow> real list \<Rightarrow> error + real list" where
  "set_joint_weights d [] v = Inr v"
| "set_joint_weights d ((key, val) # kvs) v =
     (case d key of
        None \<Rightarrow> Inl KeyError
      | Some i \<Rightarrow> if i < length v then set_joint_weights d kvs (v[i := val]) else Inl IndexError)"

definition init_obsNormalizer :: "rmodel \<Rightarrow> error + obs_normalizer" where
  "init_obsNormalizer rm =
     (let lower = lowerPositionLimit rm @ map uminus (velocityLimit rm);
          upper = upperPositionLimit rm @ velocityLimit rm
      in bind_err (np_broadcast (+) upper lower) (\<lambda>s.
         bind_err (np_broadcast (-) upper lower) (\<lambda>d.
         Inr \<lparr> lowerObsLim = lower, upperObsLim = upper,
               avgObs = map (\<lambda>x. x / 2) s, diffObs = d \<rparr>)))"

definition init_goalNormalizer :: goal_normalizer where
  "init_goalNormalizer =
     (let lower = map (\<lambda>x. - 3 * x) (replicate 3 1);
          upper = map (\<lambda>x. 3 * x) (replicate 3 1)
      in \<lparr> lowerGoalLim = lower, upperGoalLim = upper,
           avgGoal = map (\<lambda>x. x / 2) (map2 (+) upper lower),
           diffGoal = map2 (-) upper lower \<rparr>)"

definition init_targetNormalizer :: goal_normalizer where
  "init_targetNormalizer =
     (let lower = map (\<lambda>x. - 3 * x) (replicate 3 1);
          upper = map (\<lambda>x. 3 * x) (replicate 3 1)
      in \<lparr> lowerGoalLim = lower, upperGoalLim = upper,
           avgGoal = map (\<lambda>x. x / 2) (map2 (+) upper lower),
           diffGoal = map2 (-) upper lower \<rparr>)"

text \<open>
  \<^verbatim>\<open>_init_env_variables\<close>, from the attributes assigned before it is called. The gym
  spaces it also builds carry no behaviour of \<^verbatim>\<open>step\<close> or \<^verbatim>\<open>reset\<close> and are left out.
  Of the goal and the target normaliser, which are initialised one after the other on
  the same four attributes, the values of the second one stay.
  The quotient is one of Python floats: a zero divisor raises \<^verbatim>\<open>ZeroDivisionError\<close>.
\<close>

definition init_env_variables ::
  "'w collaborators \<Rightarrow> config \<Rightarrow> rmodel \<Rightarrow> real list list \<Rightarrow> 'w \<Rightarrow> error + 'w env" where
  "init_env_variables W c rm mat w =
     (let (tgt, w') = create_target W w;
          period = timeStepSimulation c * of_int (numSimulationSteps c)
      in if period = 0 then Inl ZeroDivisionError
         else
           bind_err (if normalizeObs c
                     then bind_err (init_obsNormalizer rm) (\<lambda>n. Inr (Some n)) else Inr None) (\<lambda>on.
           Inr \<lparr> cfg = c, rmodel = rm, mat_dt_init = mat,
                 timer = 0, on_target = 0,
                 maxStep = py_int (maxTime c / period),
                 torqueScale = np_scale (torqueScaleCoeff c) (effortLimit rm),
                 obsNorm = on,
                 goalNorm = (if normalizeObs c then Some init_targetNormalizer else None),
                 position_target = tgt, rCoM = None, world = w' \<rparr>))"

text \<open>
  \<^verbatim>\<open>__init__\<close>. \<open>rm\<close> is the reduced model that \<^verbatim>\<open>TalosDesigner\<close> built and \<open>w\<close> the
  world once the simulator and the goal sampler are constructed.
\<close>

definition init :: "'w collaborators \<Rightarrow> rmodel \<Rightarrow> 'w \<Rightarrow> params_env \<Rightarrow> bool \<Rightarrow> error + 'w env" where
  "init W rm w p gui =
     (let c = init_parameters p gui
      in bind_err (case weight_joints_to_init c of
                     None \<Rightarrow> Inr (replicate (nq rm) 0)
                   | Some kvs \<Rightarrow> set_joint_weights (dict_pos W) kvs (replicate (nq rm) 0)) (\<lambda>v.
         init_env_variables W c rm (np_diag v) w))"

subsection \<open>Actions and observations\<close>

definition scaleAction :: "'w env \<Rightarrow> real list \<Rightarrow> error + real list" where
  "scaleAction e action = np_broadcast (*) (torqueScale e) action"

definition obsNormalizer :: "'w env \<Rightarrow> real list \<Rightarrow> error + npfloat list" where
  "obsNormalizer e x_measured =
     (case obsNorm e of
        None \<Rightarrow> Inl AttributeError
      | Some n \<Rightarrow>
          bind_err (np_broadcast (-) x_measured (avgObs n)) (\<lambda>d.
          np_broadcast np_true_divide d (diffObs n)))"

definition goalNormalizer :: "'w env \<Rightarrow> real list \<Rightarrow> error + npfloat list" where
  "goalNormalizer e goal =
     (case goalNorm e of
        None \<Rightarrow> Inl AttributeError
      | Some n \<Rightarrow>
          bind_err (np_broadcast (-) goal (avgGoal n)) (\<lambda>d.
          np_broadcast np_true_divide d (diffGoal n)))"

definition targetNormalizer :: "'w env \<Rightarrow> real list \<Rightarrow> error + npfloat list" where
  "targetNormalizer e target =
     (case goalNorm e of
        None \<Rightarrow> Inl AttributeError
      | Some n \<Rightarrow>
          bind_err (np_broadcast (-) target (avgGoal n)) (\<lambda>d.
          np_broadcast np_true_divide d (diffGoal n)))"

definition getObservation :: "'w collaborators \<Rightarrow> 'w env \<Rightarrow> real list \<Rightarrow> error + obs" where
  "getObservation W e x_measured =
     (if normalizeObs (cfg e)
      then
        bind_err (obsNormalizer e x_measured) (\<lambda>ob.
        bind_err (goalNormalizer e (get_end_effector_pos W (world e))) (\<lambda>ag.
        bind_err (targetNormalizer e (position_target e)) (\<lambda>dg.
        Inr \<lparr> observation = ob, achieved_goal = ag, desired_goal = dg \<rparr>)))
      else
        Inr \<lparr> observation = map Fin x_measured,
              achieved_goal = map Fin (get_end_effector_pos W (world e)),
              desired_goal = map Fin (position_target e) \<rparr>)"

subsection \<open>Termination, truncation, success\<close>

definition checkTermination :: "'w env \<Rightarrow> bool" where
  "checkTermination e = (timer e > maxStep e - 1 \<or> on_target e > 30)"

text \<open>
  Python's \<^verbatim>\<open>or\<close> evaluates its right operand only when the left one is false, so a
  shape error of the right operand is raised only then.
\<close>

definition checkTruncation :: "'w env \<Rightarrow> real list \<Rightarrow> error + bool" where
  "checkTruncation e x_measured =
     (case rCoM e of
        None \<Rightarrow> Inl AttributeError
      | Some com \<Rightarrow>
          bind_err (np_any (<) com (lowerLimitPos (cfg e))) (\<lambda>below.
          bind_err (if below then Inr True
                    else np_any (>) com (upperLimitPos (cfg e))) (\<lambda>truncation_balance.
          bind_err (np_any (>) (take (nq (rmodel e)) x_measured)
                      (np_scale (limitPosScale (cfg e)) (upperPositionLimit (rmodel e)))) (\<lambda>above.
          bind_err (if above then Inr True
                    else np_any (<) (take (nq (rmodel e)) x_measured)
                           (np_scale (limitPosScale (cfg e)) (lowerPositionLimit (rmodel e))))
                   (\<lambda>truncation_limits_position.
          bind_err (np_any (>) (map abs (py_last (nv (rmodel e)) x_measured))
                      (np_scale (limitVelScale (cfg e)) (velocityLimit (rmodel e))))
                   (\<lambda>truncation_limits_speed.
          Inr ((truncation_limits_position \<or> truncation_limits_speed) \<or> truncation_balance)))))))"

definition checkSuccess :: "'w env \<Rightarrow> bool" where
  "checkSuccess e = (on_target e > 30)"

subsection \<open>Rewards\<close>

text \<open>
  The two reward functions, for the batch of one row that \<^verbatim>\<open>_reward\<close> passes:
  \<open>achieved_goal\<close> and \<open>desired_goal\<close> are the single rows of the two \<^verbatim>\<open>(1, 3)\<close> arrays and
  \<open>param_rew\<close> is \<^verbatim>\<open>info[0]["param_rew"]\<close>. The matrix product of the row of four features
  with the column of four coefficients is the sum of the four products.
\<close>

definition matmul_row :: "npfloat list \<Rightarrow> real list \<Rightarrow> npfloat" where
  "matmul_row row coeff = np_sum (map2 fmul row (map Fin coeff))"

definition compute_reward_sparse :: "'w env \<Rightarrow> npfloat list \<Rightarrow> npfloat list \<Rightarrow> npfloat list \<Rightarrow> npfloat" where
  "compute_reward_sparse e ag dg param_rew =
     (let dst = np_norm (map2 fsub ag dg);
          coeff_matrix = [- weight_command (cfg e), 0, 0, weight_target_reached (cfg e)];
          info_matrix = param_rew @
            [fsub (Fin (if norm_less dst (threshold_success (cfg e)) then 1 else 0))
                  (fmul (Fin 0.002) (Fin 1))]
      in matmul_row info_matrix coeff_matrix)"

definition compute_reward_dense :: "'w env \<Rightarrow> npfloat list \<Rightarrow> npfloat list \<Rightarrow> npfloat list \<Rightarrow> npfloat" where
  "compute_reward_dense e ag dg param_rew =
     (let dst = np_norm (map2 fsub ag dg);
          coeff_matrix = [- weight_command (cfg e), - 1, weight_truncation (cfg e),
                          - weight_target (cfg e)];
          info_matrix = param_rew @ [dst]
      in matmul_row info_matrix coeff_matrix)"

text \<open>
  \<^verbatim>\<open>self.compute_reward\<close> is assigned in \<^verbatim>\<open>__init__\<close> for the reward types \<^verbatim>\<open>"dense"\<close> and
  \<^verbatim>\<open>"sparse"\<close> only; for any other type the attribute does not exist.
\<close>

definition compute_reward :: "'w env \<Rightarrow> npfloat list \<Rightarrow> npfloat list \<Rightarrow> npfloat list \<Rightarrow> error + npfloat" where
  "compute_reward e ag dg param_rew =
     (if reward_type (cfg e) = ''dense'' then Inr (compute_reward_dense e ag dg param_rew)
      else if reward_type (cfg e) = ''sparse'' then Inr (compute_reward_sparse e ag dg param_rew)
      else Inl AttributeError)"

text \<open>
  \<^verbatim>\<open>ach_goal[0, :] = v\<close> for the row of an array of shape \<^verbatim>\<open>(1, 3)\<close>: \<open>v\<close> must have three
  entries, or one, which is then repeated.
\<close>

definition assign_row3 :: "'a list \<Rightarrow> error + 'a list" where
  "assign_row3 v =
     (if length v = 3 then Inr v
      else if length v = 1 then Inr (replicate 3 (hd v))
      else Inl ValueError)"

text \<open>\<^verbatim>\<open>np.linalg.norm\<close> of an array of finite floats.\<close>

definition np_norm_real :: "real list \<Rightarrow> real" where
  "np_norm_real xs = sqrt (sum_list (map (\<lambda>x. x * x) xs))"

text \<open>
  \<^verbatim>\<open>np.sum(a.T * self.mat_dt_init * a)\<close> for the one-dimensional \<open>a\<close>, whose transpose
  is itself: two broadcast products with the matrix, then the sum of all entries.
\<close>

definition len_to_init :: "'w env \<Rightarrow> npfloat list \<Rightarrow> error + npfloat" where
  "len_to_init e a =
     bind_err (np_rows (nq (rmodel e)) a (map (map Fin) (mat_dt_init e))) (\<lambda>m1.
     bind_err (np_rows (if length a = 1 then nq (rmodel e) else length a) a m1) (\<lambda>m2.
     Inr (np_sum2 m2)))"

definition reward :: "'w collaborators \<Rightarrow> 'w env \<Rightarrow> real list \<Rightarrow> obs \<Rightarrow> bool \<Rightarrow> error + npfloat \<times> infos" where
  "reward W e torques ob truncated =
     bind_err (np_broadcast fsub (map Fin (qC0 W (world e)))
                 (take (nq (rmodel e)) (observation ob))) (\<lambda>a.
     bind_err (len_to_init e a) (\<lambda>len.
     bind_err (np_broadcast fsub (achieved_goal ob) (desired_goal ob)) (\<lambda>g.
     let dst = np_norm g;
         bool_check = norm_less dst (threshold_success (cfg e));
         infos = \<lparr> info_param_rew =
                     [Fin (np_norm_real torques), len, Fin (if truncated then 0 else 1)],
                   info_tor = np_norm_real torques,
                   info_init = len,
                   info_dst = dst,
                   info_on_target = bool_check,
                   info_is_success = None \<rparr>
     in bind_err (assign_row3 (achieved_goal ob)) (\<lambda>ach_goal.
        bind_err (assign_row3 (desired_goal ob)) (\<lambda>des_goal.
        bind_err (compute_reward e ach_goal des_goal (info_param_rew infos)) (\<lambda>r.
        Inr (r, infos)))))))"

subsection \<open>The episode: \<^verbatim>\<open>reset\<close> and \<^verbatim>\<open>step\<close>\<close>

text \<open>\<^verbatim>\<open>for _ in range(n): self.simulator.step(torques)\<close>; an \<open>n\<close> below one runs no tick.\<close>

primrec sim_steps :: "'w collaborators \<Rightarrow> real list \<Rightarrow> nat \<Rightarrow> 'w \<Rightarrow> 'w" where
  "sim_steps W torques 0 w = w"
| "sim_steps W torques (Suc n) w = sim_steps W torques n (sim_step W torques w)"

text \<open>
  \<^verbatim>\<open>reset(seed, options)\<close>; the seed is not read. \<open>options\<close> is \<^verbatim>\<open>None\<close> or a dictionary,
  of which only the key \<^verbatim>\<open>"target"\<close> is read. The environment returned is the object
  after the call, whether the call returns or raises.
\<close>

definition reset ::
  "'w collaborators \<Rightarrow> 'w env \<Rightarrow> (string \<Rightarrow> real list option) option \<Rightarrow> 'w env \<times> (error + obs \<times> reset_infos)" where
  "reset W e options =
     (let e1 = e\<lparr>timer := 0, on_target := 0\<rparr>;
          e2 = (case options of
                  None \<Rightarrow> (let (tgt, w) = create_target W (world e1)
                           in e1\<lparr>position_target := tgt, world := w\<rparr>)
                | Some d \<Rightarrow> (case d ''target'' of
                               Some tgt \<Rightarrow> e1\<lparr>position_target := tgt\<rparr>
                             | None \<Rightarrow> e1));
          w1 = sim_reset W (position_target e2) (world e2);
          x_measured = getRobotState W w1;
          e3 = e2\<lparr>world := update_reduced_model W x_measured (getRobotPos W w1) w1\<rparr>
      in (e3,
          bind_err (np_broadcast (-) (get_end_effector_pos W (world e3)) (position_target e3)) (\<lambda>d.
          let infos = \<lparr> rinfo_dst = np_norm_real d, rinfo_tor = 0, rinfo_init = 0 \<rparr>
          in bind_err (getObservation W e3 x_measured) (\<lambda>ob. Inr (ob, infos)))))"

definition step ::
  "'w collaborators \<Rightarrow> 'w env \<Rightarrow> real list \<Rightarrow> 'w env \<times> (error + step_result)" where
  "step W e action =
     (let e1 = e\<lparr>timer := timer e + 1\<rparr>
      in case scaleAction e1 action of
           Inl err \<Rightarrow> (e1, Inl err)
         | Inr torques \<Rightarrow>
             (let w1 = sim_steps W torques (nat (numSimulationSteps (cfg e1))) (world e1);
                  x_measured = getRobotState W w1;
                  w2 = update_reduced_model W x_measured (getRobotPos W w1) w1;
                  e2 = e1\<lparr>world := w2, rCoM := Some (get_CoM W w2)\<rparr>
              in case bind_err (getObservation W e2 x_measured) (\<lambda>ob.
                      bind_err (checkTruncation e2 x_measured) (\<lambda>truncated.
                      bind_err (reward W e2 torques ob truncated) (\<lambda>(r, infos).
                      Inr (ob, truncated, r, infos)))) of
                   Inl err \<Rightarrow> (e2, Inl err)
                 | Inr (ob, truncated, r, infos) \<Rightarrow>
                     (let e3 = e2\<lparr>on_target := on_target e2 + (if info_on_target infos then 1 else 0)\<rparr>;
                          terminated = checkTermination e3;
                          infos' = (if terminated \<or> truncated
                                    then infos\<lparr>info_is_success := Some (checkSuccess e3)\<rparr>
                                    else infos)
                      in (e3, Inr \<lparr> res_ob = ob, res_reward = r, res_terminated = terminated,
                                    res_truncated = truncated, res_infos = infos' \<rparr>))))"

subsection \<open>Names for the stages of a step and for sequences of calls\<close>

text \<open>
  The world after the simulator ticks of a step, the state vector measured there, and the
  environment as \<^verbatim>\<open>step\<close> leaves it before it computes the observation: the timer
  incremented, the kinematics updated, \<^verbatim>\<open>rCoM\<close> assigned.
\<close>

definition after_sim :: "'w collaborators \<Rightarrow> 'w env \<Rightarrow> real list \<Rightarrow> 'w" where
  "after_sim W e torques = sim_steps W torques (nat (numSimulationSteps (cfg e))) (world e)"

definition measured :: "'w collaborators \<Rightarrow> 'w env \<Rightarrow> real list \<Rightarrow> real list" where
  "measured W e torques = getRobotState W (after_sim W e torques)"

definition stepped :: "'w collaborators \<Rightarrow> 'w env \<Rightarrow> real list \<Rightarrow> 'w env" where
  "stepped W e torques =
     (let w1 = after_sim W e torques;
          w2 = update_reduced_model W (getRobotState W w1) (getRobotPos W w1) w1
      in e\<lparr>timer := timer e + 1, world := w2, rCoM := Some (get_CoM W w2)\<rparr>)"

text \<open>
  A caller's sequence of \<^verbatim>\<open>reset\<close> and \<^verbatim>\<open>step\<close> calls on one environment. A call that raises
  leaves the object as it was at the raise, and the next call goes on from there.
\<close>

datatype call = Reset "(string \<Rightarrow> real list option) option" | Step "real list"

fun run :: "'w collaborators \<Rightarrow> 'w env \<Rightarrow> call list \<Rightarrow> 'w env" where
  "run W e [] = e"
| "run W e (Reset options # cs) = run W (fst (reset W e options)) cs"
| "run W e (Step action # cs) = run W (fst (step W e action)) cs"

fun is_reset :: "call \<Rightarrow> bool" where
  "is_reset (Reset options) = True"
| "is_reset (Step action) = False"

text \<open>The number of \<^verbatim>\<open>step\<close> calls made after the last \<^verbatim>\<open>reset\<close> of a sequence.\<close>

definition steps_since_reset :: "call list \<Rightarrow> int" where
  "steps_since_reset cs = int (length (takeWhile (\<lambda>c. \<not> is_reset c) (rev cs)))"

subsection \<open>A small instance: one joint, a simulator that stands still\<close>

text \<open>
  A world for evaluating the definitions: the simulator keeps the robot where it is and
  counts the calls made to it, the end effector and the centre of mass are where the world
  says, and the goal sampler hands out its stored sample and moves it by one.
\<close>

record toy_world =
  tw_state :: "real list"
  tw_ee :: "real list"
  tw_com :: "real list"
  tw_sample :: "real list"
  tw_calls :: nat

definition toy :: "toy_world collaborators" where
  "toy = \<lparr> sim_reset = (\<lambda>tgt w. w\<lparr>tw_calls := Suc (tw_calls w)\<rparr>),
           sim_step = (\<lambda>torques w. w\<lparr>tw_calls := Suc (tw_calls w)\<rparr>),
           getRobotState = tw_state,
           getRobotPos = (\<lambda>w. [0, 0, 0, 0, 0, 0, 1]),
           qC0 = (\<lambda>w. [0]),
           dict_pos = (\<lambda>key. if key = ''arm'' then Some 0 else None),
           update_reduced_model = (\<lambda>x b w. w),
           get_end_effector_pos = tw_ee,
           get_CoM = tw_com,
           create_target = (\<lambda>w. (tw_sample w, w\<lparr>tw_sample := map (\<lambda>x. x + 1) (tw_sample w)\<rparr>)) \<rparr>"

definition toy_rmodel :: rmodel where
  "toy_rmodel = \<lparr> nq = 1, nv = 1, effortLimit = [10], lowerPositionLimit = [- 1],
                  upperPositionLimit = [1], velocityLimit = [2] \<rparr>"

definition toy_params :: "string option \<Rightarrow> real \<Rightarrow> params_env" where
  "toy_params rt mt = \<lparr> p_timeStepSimulation = 0.001, p_numSimulationSteps = 10,
      p_normalizeObs = False, p_maxTime = mt, p_w_target_pos = 2, p_w_control_reg = 1,
      p_w_penalization_truncation = 0, p_randomInit = None, p_limitPosScale = None,
      p_limitVelScale = None, p_torqueScaleCoeff = None, p_lowerLimitPos = None,
      p_upperLimitPos = None, p_thresholdSuccess = None, p_w_target_reached = None,
      p_w_joints_to_init = None, p_rewardType = rt, p_w_alive = None \<rparr>"

definition toy_at :: "real \<Rightarrow> real \<Rightarrow> real list \<Rightarrow> nat \<Rightarrow> toy_world" where
  "toy_at z c s n = \<lparr> tw_state = [0, 0], tw_ee = [0, 0, z], tw_com = [0, 0, c],
                      tw_sample = s, tw_calls = n \<rparr>"

definition toy_env ::
  "string option \<Rightarrow> real \<Rightarrow> int \<Rightarrow> int \<Rightarrow> real list option \<Rightarrow> toy_world \<Rightarrow> toy_world env" where
  "toy_env rt mt t k rc w =
     \<lparr> cfg = init_parameters (toy_params rt mt) False, rmodel = toy_rmodel,
       mat_dt_init = [[0]], timer = t, on_target = k, maxStep = py_int (mt / (0.001 * 10)),
       torqueScale = [10], obsNorm = None, goalNorm = None, position_target = [0, 0, 0],
       rCoM = rc, world = w \<rparr>"

text \<open>
  What a step with the action \<open>[0]\<close> observes, reports and earns in this instance, for an
  end effector at height \<open>z\<close> over the target.
\<close>

definition toy_ob :: "real \<Rightarrow> obs" where
  "toy_ob z = \<lparr> observation = [Fin 0, Fin 0], achieved_goal = [Fin 0, Fin 0, Fin z],
               desired_goal = [Fin 0, Fin 0, Fin 0] \<rparr>"

definition toy_infos :: "real \<Rightarrow> bool \<Rightarrow> infos" where
  "toy_infos z truncated =
     \<lparr> info_param_rew = [Fin 0, Fin 0, Fin (if truncated then 0 else 1)],
       info_tor = 0, info_init = Fin 0, info_dst = Fin \<bar>z\<bar>,
       info_on_target = (\<bar>z\<bar> < 0.05), info_is_success = None \<rparr>"

definition toy_reward :: "string option \<Rightarrow> real \<Rightarrow> real" where
  "toy_reward rt z =
     (if rt = Some ''sparse'' then 5 * ((if \<bar>z\<bar> < 0.05 then 1 else 0) - 0.002) else - 2 * \<bar>z\<bar>)"

text \<open>The \<^verbatim>\<open>options\<close> dictionary \<^verbatim>\<open>{"target": tgt}\<close>.\<close>

definition target_options :: "real list \<Rightarrow> (string \<Rightarrow> real list option) option" where
  "target_options tgt = Some (\<lambda>key. if key = ''target'' then Some tgt else None)"

text \<open>
  The dense example of the specification: weights 1, 0 and 2, no torque, no distance from
  the rest pose, the end effector 0.1 away from the target.
\<close>

definition dense_example :: "toy_world env" where
  "dense_example = toy_env None 1 0 0 None (toy_at 0.1 1 [1, 1, 1] 0)"

definition dense_example_result :: step_result where
  "dense_example_result = projr (snd (step toy dense_example [0]))"

text \<open>A \<^verbatim>\<open>reset\<close> followed by ninety-nine steps.\<close>

definition hundred_calls :: "call list" where
  "hundred_calls = Reset (target_options [0, 0, 0]) # replicate 99 (Step [0])"

text \<open>
  The sparse examples of the specification: the target-reached weight 5, no torque, the end
  effector on the target (\<open>sparse_example\<close>) and one metre above it (\<open>sparse_far_example\<close>).
\<close>

definition sparse_example :: "toy_world env" where
  "sparse_example = toy_env (Some ''sparse'') 1 0 0 None (toy_at 0 1 [1, 1, 1] 0)"

definition sparse_example_result :: step_result where
  "sparse_example_result = projr (snd (step toy sparse_example [0]))"

definition sparse_far_example :: "toy_world env" where
  "sparse_far_example = toy_env (Some ''sparse'') 1 0 0 None (toy_at 1 1 [1, 1, 1] 0)"

definition sparse_far_result :: step_result where
  "sparse_far_result = projr (snd (step toy sparse_far_example [0]))"

text \<open>The centre of mass at height 2, above the balance box, which ends at 1.5.\<close>

definition trunc_example :: "toy_world env" where
  "trunc_example = toy_env None 1 0 0 None (toy_at 0.1 2 [1, 1, 1] 0)"


text \<open>An \<^verbatim>\<open>options\<close> dictionary without the key \<^verbatim>\<open>"target"\<close>, such as \<^verbatim>\<open>{}\<close>.\<close>

definition no_target_options :: "(string \<Rightarrow> real list option) option" where
  "no_target_options = Some (\<lambda>key. None)"

text \<open>
  An episode budget of two steps (\<open>maxTime = 0.02\<close>), the end effector on the target, and
  a reset followed by three steps.
\<close>

definition short_example :: "toy_world env" where
  "short_example = toy_env (Some ''sparse'') 0.02 0 0 None (toy_at 0 1 [1, 1, 1] 0)"

definition three_steps :: "call list" where
  "three_steps = [Reset (target_options [0, 0, 0]), Step [0], Step [0], Step [0]]"

text \<open>
  A model whose single joint has the same lower and upper position limit, so that the
  range of the first observation component is zero, constructed with normalisation on.
\<close>

definition flat_rmodel :: rmodel where
  "flat_rmodel = \<lparr> nq = 1, nv = 1, effortLimit = [10], lowerPositionLimit = [1],
                   upperPositionLimit = [1], velocityLimit = [2] \<rparr>"

definition flat_params :: params_env where
  "flat_params = (toy_params None 1)\<lparr>p_normalizeObs := True\<rparr>"

definition flat_example :: "toy_world env" where
  "flat_example = projr (init toy flat_rmodel (toy_at 0.1 1 [0, 0, 0] 0) flat_params False)"

text \<open>A model with two joints, against which an action of three entries cannot be broadcast.\<close>

definition two_joint_rmodel :: rmodel where
  "two_joint_rmodel = \<lparr> nq = 2, nv = 2, effortLimit = [10, 10], lowerPositionLimit = [- 1, - 1],
                        upperPositionLimit = [1, 1], velocityLimit = [2, 2] \<rparr>"

definition two_joint_example :: "toy_world env" where
  "two_joint_example =
     projr (init toy two_joint_rmodel (toy_at 0.1 1 [0, 0, 0] 0) (toy_params None 1) False)"

section \<open>Properties\<close>

subsection \<open>Results, broadcasting and rounding\<close>

lemma bind_err_Inr: "bind_err m f = Inr y \<longleftrightarrow> (\<exists>x. m = Inr x \<and> f x = Inr y)"
  by (cases m) auto

lemma bind_err_Inl: "bind_err m f = Inl err \<longleftrightarrow> m = Inl err \<or> (\<exists>x. m = Inr x \<and> f x = Inl err)"
  by (cases m) auto

lemma np_broadcast_same: "length xs = length ys \<Longrightarrow> np_broadcast f xs ys = Inr (map2 f xs ys)"
  by (simp add: np_broadcast_def)

lemma np_broadcast_Inl: "np_broadcast f xs ys = Inl err \<Longrightarrow> err = ValueError"
  by (simp add: np_broadcast_def split: if_splits)

lemma np_any_same:
  "length xs = length ys \<Longrightarrow> np_any f xs ys = Inr (\<exists>i<length xs. f (xs ! i) (ys ! i))"
  by (auto simp: np_any_def np_broadcast_def list_ex_length)

lemma np_any_Nil: "np_any f xs [] = Inr b \<Longrightarrow> \<not> b"
  by (auto simp: np_any_def np_broadcast_def bind_err_Inr split: if_splits)

lemma assign_row3_same: "length v = 3 \<Longrightarrow> assign_row3 v = Inr v"
  by (simp add: assign_row3_def)

lemma matmul_row4:
  "matmul_row [Fin a, Fin b, Fin c, Fin d] [p, q, r, s] = Fin (a * p + b * q + c * r + d * s)"
  by (simp add: matmul_row_def np_sum_def)



subsection \<open>What a step that returns has computed\<close>

lemma scaleAction_timer [simp]: "scaleAction (e\<lparr>timer := t\<rparr>) a = scaleAction e a"
  by (simp add: scaleAction_def)

lemma step_Inr:
  assumes "step W e action = (e', Inr r)"
  obtains torques infos where
    "scaleAction e action = Inr torques"
    "getObservation W (stepped W e torques) (measured W e torques) = Inr (res_ob r)"
    "checkTruncation (stepped W e torques) (measured W e torques) = Inr (res_truncated r)"
    "reward W (stepped W e torques) torques (res_ob r) (res_truncated r) = Inr (res_reward r, infos)"
    "e' = (stepped W e torques)\<lparr>on_target := on_target e + (if info_on_target infos then 1 else 0)\<rparr>"
    "res_terminated r = checkTermination e'"
    "res_infos r = (if res_terminated r \<or> res_truncated r
                    then infos\<lparr>info_is_success := Some (checkSuccess e')\<rparr> else infos)"
  using assms
  unfolding step_def stepped_def measured_def after_sim_def Let_def
  by (auto simp: Let_def bind_err_Inr split: sum.splits prod.splits)

lemma reward_Inr:
  assumes "reward W e torques ob truncated = Inr (r, infos)"
  obtains a len g ag dg where
    "np_broadcast fsub (map Fin (qC0 W (world e))) (take (nq (rmodel e)) (observation ob)) = Inr a"
    "len_to_init e a = Inr len"
    "np_broadcast fsub (achieved_goal ob) (desired_goal ob) = Inr g"
    "infos = \<lparr> info_param_rew = [Fin (np_norm_real torques), len, Fin (if truncated then 0 else 1)],
               info_tor = np_norm_real torques, info_init = len, info_dst = np_norm g,
               info_on_target = norm_less (np_norm g) (threshold_success (cfg e)),
               info_is_success = None \<rparr>"
    "assign_row3 (achieved_goal ob) = Inr ag"
    "assign_row3 (desired_goal ob) = Inr dg"
    "compute_reward e ag dg (info_param_rew infos) = Inr r"
  using assms unfolding reward_def Let_def
  by (auto simp: bind_err_Inr)

lemma cfg_stepped [simp]: "cfg (stepped W e t) = cfg e"
  by (simp add: stepped_def Let_def)

lemma step_eq:
  assumes "scaleAction e action = Inr torques"
    and "getObservation W (stepped W e torques) (measured W e torques) = Inr ob"
    and "checkTruncation (stepped W e torques) (measured W e torques) = Inr truncated"
    and "reward W (stepped W e torques) torques ob truncated = Inr (rw, infos)"
  shows "step W e action =
    (let e3 = (stepped W e torques)\<lparr>on_target := on_target e + (if info_on_target infos then 1 else 0)\<rparr>
     in (e3, Inr \<lparr> res_ob = ob, res_reward = rw, res_terminated = checkTermination e3,
                   res_truncated = truncated,
                   res_infos = (if checkTermination e3 \<or> truncated
                                then infos\<lparr>info_is_success := Some (checkSuccess e3)\<rparr>
                                else infos) \<rparr>))"
  using assms
  unfolding step_def stepped_def measured_def after_sim_def Let_def
  by simp

lemma step_features:
  assumes "step W e action = (e', Inr r)"
    and "length (achieved_goal (res_ob r)) = 3"
    and "length (desired_goal (res_ob r)) = 3"
  obtains torques where
    "scaleAction e action = Inr torques"
    "info_tor (res_infos r) = np_norm_real torques"
    "info_dst (res_infos r) = np_norm (map2 fsub (achieved_goal (res_ob r)) (desired_goal (res_ob r)))"
    "info_on_target (res_infos r) = norm_less (info_dst (res_infos r)) (threshold_success (cfg e))"
    "info_param_rew (res_infos r) =
       [Fin (info_tor (res_infos r)), info_init (res_infos r), Fin (if res_truncated r then 0 else 1)]"
    "compute_reward e (achieved_goal (res_ob r)) (desired_goal (res_ob r)) (info_param_rew (res_infos r))
       = Inr (res_reward r)"
    "on_target e' = on_target e + (if info_on_target (res_infos r) then 1 else 0)"
proof -
  from assms(1) obtain torques infos where
    sc: "scaleAction e action = Inr torques"
    and rw: "reward W (stepped W e torques) torques (res_ob r) (res_truncated r) = Inr (res_reward r, infos)"
    and e': "e' = (stepped W e torques)\<lparr>on_target := on_target e + (if info_on_target infos then 1 else 0)\<rparr>"
    and inf: "res_infos r = (if res_terminated r \<or> res_truncated r
                    then infos\<lparr>info_is_success := Some (checkSuccess e')\<rparr> else infos)"
    by (rule step_Inr)
  from rw obtain len g ag dg where
    g: "np_broadcast fsub (achieved_goal (res_ob r)) (desired_goal (res_ob r)) = Inr g"
    and infos: "infos = \<lparr> info_param_rew = [Fin (np_norm_real torques), len, Fin (if res_truncated r then 0 else 1)],
               info_tor = np_norm_real torques, info_init = len, info_dst = np_norm g,
               info_on_target = norm_less (np_norm g) (threshold_success (cfg (stepped W e torques))),
               info_is_success = None \<rparr>"
    and ag: "assign_row3 (achieved_goal (res_ob r)) = Inr ag"
    and dg: "assign_row3 (desired_goal (res_ob r)) = Inr dg"
    and cr: "compute_reward (stepped W e torques) ag dg (info_param_rew infos) = Inr (res_reward r)"
    by (rule reward_Inr)
  have ag': "ag = achieved_goal (res_ob r)" and dg': "dg = desired_goal (res_ob r)"
    using ag dg assms(2,3) by (simp_all add: assign_row3_same)
  have g': "g = map2 fsub (achieved_goal (res_ob r)) (desired_goal (res_ob r))"
    using g assms(2,3) by (simp add: np_broadcast_same)
  have "compute_reward (stepped W e torques) ag dg (info_param_rew infos)
          = compute_reward e ag dg (info_param_rew infos)"
    by (simp add: compute_reward_def compute_reward_dense_def compute_reward_sparse_def)
  with cr have cr': "compute_reward e ag dg (info_param_rew infos) = Inr (res_reward r)"
    by simp
  have f1: "info_tor (res_infos r) = np_norm_real torques"
    and f2: "info_dst (res_infos r) = np_norm g"
    and f3: "info_on_target (res_infos r) = norm_less (np_norm g) (threshold_success (cfg e))"
    and f4: "info_param_rew (res_infos r) = info_param_rew infos"
    and f5: "info_init (res_infos r) = len"
    and f6: "info_on_target (res_infos r) = info_on_target infos"
    using inf infos by (auto split: if_splits)
  show ?thesis
  proof (rule that[of torques])
    show "scaleAction e action = Inr torques" by (rule sc)
    show "info_tor (res_infos r) = np_norm_real torques" by (rule f1)
    show "info_dst (res_infos r) = np_norm (map2 fsub (achieved_goal (res_ob r)) (desired_goal (res_ob r)))"
      using f2 g' by simp
    show "info_on_target (res_infos r) = norm_less (info_dst (res_infos r)) (threshold_success (cfg e))"
      using f2 f3 by simp
    show "info_param_rew (res_infos r) =
       [Fin (info_tor (res_infos r)), info_init (res_infos r), Fin (if res_truncated r then 0 else 1)]"
      using f4 f1 f5 infos by simp
    show "compute_reward e (achieved_goal (res_ob r)) (desired_goal (res_ob r)) (info_param_rew (res_infos r))
       = Inr (res_reward r)"
      using cr' f4 ag' dg' by simp
    show "on_target e' = on_target e + (if info_on_target (res_infos r) then 1 else 0)"
      using e' f6 by simp
  qed
qed

lemma rCoM_step_Inr:
  assumes "step W e action = (e', Inr r)" and "scaleAction e action = Inr torques"
  shows "rCoM e' = rCoM (stepped W e torques)"
    and "checkTruncation (stepped W e torques) (measured W e torques) = Inr (res_truncated r)"
  using assms by (auto elim!: step_Inr)

lemma on_target_step_Inr:
  assumes "step W e action = (e', Inr r)"
  shows "on_target e' = on_target e
           + (if norm_less (info_dst (res_infos r)) (threshold_success (cfg e)) then 1 else 0)"
proof -
  from assms obtain torques infos where
    rw: "reward W (stepped W e torques) torques (res_ob r) (res_truncated r) = Inr (res_reward r, infos)"
    and e': "e' = (stepped W e torques)\<lparr>on_target := on_target e + (if info_on_target infos then 1 else 0)\<rparr>"
    and inf: "res_infos r = (if res_terminated r \<or> res_truncated r
                    then infos\<lparr>info_is_success := Some (checkSuccess e')\<rparr> else infos)"
    by (rule step_Inr)
  from rw obtain len g where
    infos: "infos = \<lparr> info_param_rew = [Fin (np_norm_real torques), len, Fin (if res_truncated r then 0 else 1)],
               info_tor = np_norm_real torques, info_init = len, info_dst = np_norm g,
               info_on_target = norm_less (np_norm g) (threshold_success (cfg (stepped W e torques))),
               info_is_success = None \<rparr>"
    by (rule reward_Inr)
  have "info_dst (res_infos r) = np_norm g"
    and "info_on_target infos = norm_less (np_norm g) (threshold_success (cfg e))"
    using inf infos by (auto split: if_splits)
  then show ?thesis using e' by simp
qed

subsection \<open>What any call of step or reset changes\<close>

lemma step_trichotomy:
  fixes e :: "'w env"
  obtains (bad_action) err where "scaleAction e a = Inl err"
      "fst (step W e a) = e\<lparr>timer := timer e + 1\<rparr>" "snd (step W e a) = Inl err"
  | (raised) torques err where "scaleAction e a = Inr torques"
      "fst (step W e a) = stepped W e torques" "snd (step W e a) = Inl err"
  | (returned) torques and infos :: infos and r :: step_result where "scaleAction e a = Inr torques"
      "fst (step W e a) = (stepped W e torques)\<lparr>on_target := on_target e + (if info_on_target infos then 1 else 0)\<rparr>"
      "snd (step W e a) = Inr r"
proof (cases "scaleAction e a")
  case (Inl err)
  then have "step W e a = (e\<lparr>timer := timer e + 1\<rparr>, Inl err)"
    by (simp add: step_def)
  with Inl show ?thesis by (intro bad_action[of err]) simp_all
next
  case (Inr torques)
  define body where "body =
    bind_err (getObservation W (stepped W e torques) (measured W e torques)) (\<lambda>ob.
    bind_err (checkTruncation (stepped W e torques) (measured W e torques)) (\<lambda>truncated.
    bind_err (reward W (stepped W e torques) torques ob truncated) (\<lambda>(r, infos).
    Inr (ob, truncated, r, infos))))"
  have st: "step W e a =
    (case body of
       Inl err \<Rightarrow> (stepped W e torques, Inl err)
     | Inr (ob, truncated, r, infos) \<Rightarrow>
         (let e3 = (stepped W e torques)\<lparr>on_target := on_target e + (if info_on_target infos then 1 else 0)\<rparr>;
              terminated = checkTermination e3;
              infos' = (if terminated \<or> truncated
                        then infos\<lparr>info_is_success := Some (checkSuccess e3)\<rparr> else infos)
          in (e3, Inr \<lparr> res_ob = ob, res_reward = r, res_terminated = terminated,
                        res_truncated = truncated, res_infos = infos' \<rparr>)))"
    using Inr unfolding step_def body_def stepped_def measured_def after_sim_def Let_def
    by (simp split: sum.split prod.split)
  show ?thesis
  proof (cases body)
    case (Inl err)
    with st have "step W e a = (stepped W e torques, Inl err)" by simp
    with Inr show ?thesis by (intro raised[of torques err]) simp_all
  next
    case b: (Inr t)
    obtain ob truncated r infos where t: "t = (ob, truncated, r, infos)"
      by (cases t) auto
    from st b t show ?thesis
      using Inr by (intro returned[of torques infos]) (simp_all add: Let_def)
  qed
qed

lemma stepped_fields [simp]:
  "timer (stepped W e t) = timer e + 1" "maxStep (stepped W e t) = maxStep e"
  "rmodel (stepped W e t) = rmodel e" "torqueScale (stepped W e t) = torqueScale e"
  "on_target (stepped W e t) = on_target e" "mat_dt_init (stepped W e t) = mat_dt_init e"
  "obsNorm (stepped W e t) = obsNorm e" "goalNorm (stepped W e t) = goalNorm e"
  "position_target (stepped W e t) = position_target e"
  by (simp_all add: stepped_def Let_def)

lemma timer_step: "timer (fst (step W e a)) = timer e + 1"
  by (cases rule: step_trichotomy[of e a W]) simp_all

lemma maxStep_step: "maxStep (fst (step W e a)) = maxStep e"
  by (cases rule: step_trichotomy[of e a W]) simp_all

lemma cfg_step: "cfg (fst (step W e a)) = cfg e"
  by (cases rule: step_trichotomy[of e a W]) simp_all

lemma rmodel_step: "rmodel (fst (step W e a)) = rmodel e"
  by (cases rule: step_trichotomy[of e a W]) simp_all

lemma torqueScale_step: "torqueScale (fst (step W e a)) = torqueScale e"
  by (cases rule: step_trichotomy[of e a W]) simp_all

lemma on_target_step:
  "on_target (fst (step W e a)) = on_target e \<or> on_target (fst (step W e a)) = on_target e + 1"
  by (cases rule: step_trichotomy[of e a W]) simp_all

lemma on_target_step_Inl: "snd (step W e a) = Inl err \<Longrightarrow> on_target (fst (step W e a)) = on_target e"
  by (cases rule: step_trichotomy[of e a W]) simp_all

lemma world_step:
  fixes e :: "'w env"
  shows "scaleAction e action = Inr torques \<Longrightarrow>
     world (fst (step W e action)) = world (stepped W e torques)"
    and "scaleAction e action = Inl err \<Longrightarrow>
     world (fst (step W e action)) = world e \<and> snd (step W e action) = Inl err"
  by (cases rule: step_trichotomy[of e action W]; simp)+

lemma reset_fields:
  "timer (fst (reset W e opts)) = 0" "on_target (fst (reset W e opts)) = 0"
  "maxStep (fst (reset W e opts)) = maxStep e" "cfg (fst (reset W e opts)) = cfg e"
  "rmodel (fst (reset W e opts)) = rmodel e" "torqueScale (fst (reset W e opts)) = torqueScale e"
  by (simp_all add: reset_def Let_def split: option.split prod.split)

subsection \<open>Construction and normalisation\<close>

lemma init_env_variables_Inr:
  assumes "init_env_variables W c rm mat w = Inr e"
  shows "cfg e = c" and "rmodel e = rm" and "timer e = 0" and "on_target e = 0"
    and "maxStep e = py_int (maxTime c / (timeStepSimulation c * of_int (numSimulationSteps c)))"
    and "torqueScale e = np_scale (torqueScaleCoeff c) (effortLimit rm)"
    and "timeStepSimulation c * of_int (numSimulationSteps c) \<noteq> 0"
proof -
  obtain tgt w' where tw: "create_target W w = (tgt, w')" by (cases "create_target W w")
  let ?period = "timeStepSimulation c * of_int (numSimulationSteps c)"
  from assms tw have nz: "?period \<noteq> 0"
    by (auto simp: init_env_variables_def Let_def split: if_splits)
  with assms tw obtain on where e: "e = \<lparr> cfg = c, rmodel = rm, mat_dt_init = mat,
                 timer = 0, on_target = 0,
                 maxStep = py_int (maxTime c / ?period),
                 torqueScale = np_scale (torqueScaleCoeff c) (effortLimit rm),
                 obsNorm = on,
                 goalNorm = (if normalizeObs c then Some init_targetNormalizer else None),
                 position_target = tgt, rCoM = None, world = w' \<rparr>"
    by (auto simp: init_env_variables_def Let_def bind_err_Inr)
  show "cfg e = c" "rmodel e = rm" "timer e = 0" "on_target e = 0"
    "maxStep e = py_int (maxTime c / ?period)"
    "torqueScale e = np_scale (torqueScaleCoeff c) (effortLimit rm)" "?period \<noteq> 0"
    using nz by (simp_all add: e)
qed

lemma init_Inr:
  assumes "init W rm w p gui = Inr e"
  shows "cfg e = init_parameters p gui" and "rmodel e = rm" and "timer e = 0" and "on_target e = 0"
    and "maxStep e = py_int (p_maxTime p / (p_timeStepSimulation p * of_int (p_numSimulationSteps p)))"
    and "torqueScale e = np_scale (torqueScaleCoeff (cfg e)) (effortLimit rm)"
    and "p_timeStepSimulation p * of_int (p_numSimulationSteps p) \<noteq> 0"
proof -
  from assms obtain v where
    iv: "init_env_variables W (init_parameters p gui) rm (np_diag v) w = Inr e"
    by (auto simp: init_def Let_def bind_err_Inr)
  have c: "maxTime (init_parameters p gui) = p_maxTime p"
    "timeStepSimulation (init_parameters p gui) = p_timeStepSimulation p"
    "numSimulationSteps (init_parameters p gui) = p_numSimulationSteps p"
    by (simp_all add: init_parameters_def)
  show "cfg e = init_parameters p gui" "rmodel e = rm" "timer e = 0" "on_target e = 0"
    "maxStep e = py_int (p_maxTime p / (p_timeStepSimulation p * of_int (p_numSimulationSteps p)))"
    "torqueScale e = np_scale (torqueScaleCoeff (cfg e)) (effortLimit rm)"
    "p_timeStepSimulation p * of_int (p_numSimulationSteps p) \<noteq> 0"
    using init_env_variables_Inr[OF iv] by (simp_all add: c)
qed

lemma set_joint_weights_Inl:
  "set_joint_weights d kvs v = Inl err \<Longrightarrow> err = KeyError \<or> err = IndexError"
  by (induction d kvs v rule: set_joint_weights.induct) (auto split: option.splits if_splits)

lemma init_obsNormalizer_Inl: "init_obsNormalizer rm = Inl err \<Longrightarrow> err = ValueError"
  by (auto simp: init_obsNormalizer_def Let_def bind_err_Inl dest: np_broadcast_Inl)

lemma init_env_variables_ZeroDivision:
  assumes "init_env_variables W c rm mat w = Inl ZeroDivisionError"
  shows "timeStepSimulation c * of_int (numSimulationSteps c) = 0"
proof (rule ccontr)
  assume nz: "timeStepSimulation c * of_int (numSimulationSteps c) \<noteq> 0"
  obtain tgt w' where tw: "create_target W w = (tgt, w')" by (cases "create_target W w")
  from assms nz tw have "normalizeObs c \<and> init_obsNormalizer rm = Inl ZeroDivisionError"
    by (auto simp: init_env_variables_def Let_def bind_err_Inl split: if_splits)
  then show False by (auto dest: init_obsNormalizer_Inl)
qed

lemma init_ZeroDivision:
  assumes "init W rm w p gui = Inl ZeroDivisionError"
  shows "p_timeStepSimulation p * of_int (p_numSimulationSteps p) = 0"
proof -
  from assms have "\<exists>v. init_env_variables W (init_parameters p gui) rm (np_diag v) w = Inl ZeroDivisionError"
    by (auto simp: init_def Let_def bind_err_Inl split: option.splits dest: set_joint_weights_Inl)
  then obtain v where "init_env_variables W (init_parameters p gui) rm (np_diag v) w = Inl ZeroDivisionError"
    by blast
  from init_env_variables_ZeroDivision[OF this] show ?thesis
    by (simp add: init_parameters_def)
qed

lemma obsNormalizer_same:
  assumes "obsNorm e = Some n" and "length x = length (avgObs n)" and "length x = length (diffObs n)"
  shows "obsNormalizer e x =
     Inr (map (\<lambda>i. if diffObs n ! i = 0 then NonFinite
                     else Fin ((x ! i - avgObs n ! i) / diffObs n ! i)) [0..<length x])"
  using assms
  by (auto simp: obsNormalizer_def np_broadcast_def np_true_divide_def intro!: nth_equalityI)

subsection \<open>Sequences of calls\<close>

lemma run_snoc:
  "run W e (cs @ [Reset options]) = fst (reset W (run W e cs) options)"
  "run W e (cs @ [Step action]) = fst (step W (run W e cs) action)"
  by (induction W e cs rule: run.induct) simp_all

lemma run_fields:
  "maxStep (run W e cs) = maxStep e" "cfg (run W e cs) = cfg e"
  "rmodel (run W e cs) = rmodel e" "torqueScale (run W e cs) = torqueScale e"
proof (induction cs rule: rev_induct)
  case Nil
  { case 1 show ?case by simp }
  { case 2 show ?case by simp }
  { case 3 show ?case by simp }
  { case 4 show ?case by simp }
next
  case (snoc c cs)
  { case 1 with snoc show ?case
      by (cases c) (simp_all add: run_snoc reset_fields maxStep_step) }
  { case 2 with snoc show ?case
      by (cases c) (simp_all add: run_snoc reset_fields cfg_step) }
  { case 3 with snoc show ?case
      by (cases c) (simp_all add: run_snoc reset_fields rmodel_step) }
  { case 4 with snoc show ?case
      by (cases c) (simp_all add: run_snoc reset_fields torqueScale_step) }
qed

lemma run_timer:
  "timer e = 0 \<Longrightarrow> timer (run W e cs) = steps_since_reset cs"
proof (induction cs rule: rev_induct)
  case Nil
  then show ?case by (simp add: steps_since_reset_def)
next
  case (snoc c cs)
  then show ?case
    by (cases c) (simp_all add: run_snoc reset_fields timer_step steps_since_reset_def)
qed

lemma run_on_target:
  "timer e = 0 \<Longrightarrow> on_target e = 0 \<Longrightarrow>
   0 \<le> on_target (run W e cs) \<and> on_target (run W e cs) \<le> timer (run W e cs)"
proof (induction cs rule: rev_induct)
  case Nil
  then show ?case by simp
next
  case (snoc c cs)
  show ?case
  proof (cases c)
    case (Reset options)
    then show ?thesis by (simp add: run_snoc reset_fields)
  next
    case (Step action)
    with snoc on_target_step[of W "run W e cs" action] show ?thesis
      by (auto simp: run_snoc timer_step)
  qed
qed

subsection \<open>The small instance, evaluated\<close>

lemma toy_cfg:
  "normalizeObs (init_parameters (toy_params rt mt) False) = False"
  "numSimulationSteps (init_parameters (toy_params rt mt) False) = 10"
  "lowerLimitPos (init_parameters (toy_params rt mt) False) = [- 0.5, - 0.5, 0.9]"
  "upperLimitPos (init_parameters (toy_params rt mt) False) = [0.5, 0.5, 1.5]"
  "limitPosScale (init_parameters (toy_params rt mt) False) = 10"
  "limitVelScale (init_parameters (toy_params rt mt) False) = 30"
  "threshold_success (init_parameters (toy_params rt mt) False) = 0.05"
  "weight_target_reached (init_parameters (toy_params rt mt) False) = 5"
  "weight_command (init_parameters (toy_params rt mt) False) = 1"
  "weight_truncation (init_parameters (toy_params rt mt) False) = 0"
  "weight_target (init_parameters (toy_params rt mt) False) = 2"
  "torqueScaleCoeff (init_parameters (toy_params rt mt) False) = 1"
  "weight_joints_to_init (init_parameters (toy_params rt mt) False) = None"
  "maxTime (init_parameters (toy_params rt mt) False) = mt"
  "timeStepSimulation (init_parameters (toy_params rt mt) False) = 0.001"
  "reward_type (init_parameters (toy_params rt mt) False) = (case rt of Some s \<Rightarrow> s | None \<Rightarrow> ''dense'')"
  by (simp_all add: init_parameters_def toy_params_def)

lemma toy_init:
  "init toy toy_rmodel (toy_at z c [0, 0, 0] 0) (toy_params rt mt) False =
     Inr (toy_env rt mt 0 0 None (toy_at z c [1, 1, 1] 0))"
  by (simp add: init_def init_env_variables_def toy_cfg Let_def toy_env_def np_diag_def np_scale_def)
     (simp add: toy_def toy_rmodel_def toy_at_def)

lemma toy_sim_steps: "sim_steps toy t n w = w\<lparr>tw_calls := tw_calls w + n\<rparr>"
  by (induction n arbitrary: w) (simp_all add: toy_def)

lemma toy_scale: "scaleAction (toy_env rt mt t k rc w) [0] = Inr [0]"
  by (simp add: scaleAction_def toy_env_def np_broadcast_def)

lemma toy_stepped:
  "stepped toy (toy_env rt mt t k rc (toy_at z c s n)) [0] =
     toy_env rt mt (t + 1) k (Some [0, 0, c]) (toy_at z c s (n + 10))"
  by (simp add: stepped_def after_sim_def toy_sim_steps Let_def toy_env_def toy_cfg)
     (simp add: toy_def toy_at_def)

lemma toy_measured: "measured toy (toy_env rt mt t k rc (toy_at z c s n)) [0] = [0, 0]"
  by (simp add: measured_def after_sim_def toy_sim_steps toy_env_def)
     (simp add: toy_def toy_at_def)

lemma toy_getObservation:
  "getObservation toy (toy_env rt mt t k rc (toy_at z c s n)) [0, 0] = Inr (toy_ob z)"
  by (simp add: getObservation_def toy_env_def toy_cfg toy_ob_def)
     (simp add: toy_def toy_at_def)

lemma toy_checkTruncation:
  "checkTruncation (toy_env rt mt t k (Some [0, 0, c]) w) [0, 0] = Inr (c < 0.9 \<or> 1.5 < c)"
  by (simp add: checkTruncation_def toy_env_def toy_cfg np_any_def np_broadcast_def np_scale_def
      py_last_def toy_rmodel_def)

lemma toy_norm: "np_norm [Fin 0, Fin 0, Fin z] = Fin \<bar>z\<bar>"
  by (simp add: np_norm_def np_sum_def)

lemma toy_len_to_init: "len_to_init (toy_env rt mt t k rc w) [Fin 0] = Inr (Fin 0)"
  by (simp add: len_to_init_def toy_env_def toy_rmodel_def np_broadcast_def np_sum2_def np_sum_def)

lemma toy_compute_reward:
  "rt = None \<or> rt = Some ''sparse'' \<Longrightarrow>
   compute_reward (toy_env rt mt t k rc w) [Fin 0, Fin 0, Fin z] [Fin 0, Fin 0, Fin 0]
     [Fin 0, Fin 0, Fin a] = Inr (Fin (toy_reward rt z))"
  by (auto simp: compute_reward_def compute_reward_dense_def compute_reward_sparse_def
      toy_env_def toy_cfg toy_norm matmul_row4 toy_reward_def Let_def)

lemma toy_reward_eval:
  "rt = None \<or> rt = Some ''sparse'' \<Longrightarrow>
   reward toy (toy_env rt mt t k rc (toy_at z c s n)) [0] (toy_ob z) truncated =
     Inr (Fin (toy_reward rt z), toy_infos z truncated)"
proof -
  assume rt: "rt = None \<or> rt = Some ''sparse''"
  have a: "np_broadcast fsub (map Fin (qC0 toy (world (toy_env rt mt t k rc (toy_at z c s n)))))
             (take (nq (rmodel (toy_env rt mt t k rc (toy_at z c s n)))) (observation (toy_ob z)))
           = Inr [Fin 0]"
    by (simp add: toy_env_def toy_def toy_rmodel_def toy_ob_def np_broadcast_def)
  have g: "np_broadcast fsub (achieved_goal (toy_ob z)) (desired_goal (toy_ob z))
           = Inr [Fin 0, Fin 0, Fin z]"
    by (simp add: toy_ob_def np_broadcast_def)
  have r3: "assign_row3 (achieved_goal (toy_ob z)) = Inr [Fin 0, Fin 0, Fin z]"
    "assign_row3 (desired_goal (toy_ob z)) = Inr [Fin 0, Fin 0, Fin 0]"
    by (simp_all add: toy_ob_def assign_row3_def)
  have th: "threshold_success (cfg (toy_env rt mt t k rc (toy_at z c s n))) = 0.05"
    by (simp add: toy_env_def toy_cfg)
  have n0: "np_norm_real [0] = 0" by (simp add: np_norm_real_def)
  show ?thesis
    unfolding reward_def a g r3 bind_err.simps toy_len_to_init Let_def toy_norm th n0
    by (simp add: toy_compute_reward[OF rt] toy_infos_def)
qed

lemma toy_step:
  assumes "rt = None \<or> rt = Some ''sparse''"
  shows "step toy (toy_env rt mt t k rc (toy_at z c s n)) [0] =
    (toy_env rt mt (t + 1) (k + (if \<bar>z\<bar> < 0.05 then 1 else 0)) (Some [0, 0, c]) (toy_at z c s (n + 10)),
     Inr \<lparr> res_ob = toy_ob z, res_reward = Fin (toy_reward rt z),
           res_terminated = (t + 1 > py_int (mt / (0.001 * 10)) - 1
                             \<or> k + (if \<bar>z\<bar> < 0.05 then 1 else 0) > 30),
           res_truncated = (c < 0.9 \<or> 1.5 < c),
           res_infos = (if (t + 1 > py_int (mt / (0.001 * 10)) - 1
                             \<or> k + (if \<bar>z\<bar> < 0.05 then 1 else 0) > 30) \<or> (c < 0.9 \<or> 1.5 < c)
                        then (toy_infos z (c < 0.9 \<or> 1.5 < c))
                               \<lparr>info_is_success := Some (k + (if \<bar>z\<bar> < 0.05 then 1 else 0) > 30)\<rparr>
                        else toy_infos z (c < 0.9 \<or> 1.5 < c)) \<rparr>)"
proof -
  let ?E = "toy_env rt mt t k rc (toy_at z c s n)"
  have 1: "scaleAction ?E [0] = Inr [0]" by (rule toy_scale)
  have 2: "getObservation toy (stepped toy ?E [0]) (measured toy ?E [0]) = Inr (toy_ob z)"
    by (simp add: toy_stepped toy_measured toy_getObservation)
  have 3: "checkTruncation (stepped toy ?E [0]) (measured toy ?E [0]) = Inr (c < 0.9 \<or> 1.5 < c)"
    by (simp only: toy_stepped toy_measured toy_checkTruncation)
  have 4: "reward toy (stepped toy ?E [0]) [0] (toy_ob z) (c < 0.9 \<or> 1.5 < c)
            = Inr (Fin (toy_reward rt z), toy_infos z (c < 0.9 \<or> 1.5 < c))"
    by (simp only: toy_stepped toy_reward_eval[OF assms])
  have ot: "info_on_target (toy_infos z b) = (\<bar>z\<bar> < 0.05)" for b
    by (simp add: toy_infos_def)
  show ?thesis
    unfolding step_eq[OF 1 2 3 4] toy_stepped Let_def ot
    by (simp add: toy_env_def checkTermination_def checkSuccess_def)
qed

lemma toy_reset:
  "fst (reset toy (toy_env rt mt t k rc (toy_at z c s n)) (target_options [0, 0, 0])) =
     toy_env rt mt 0 0 rc (toy_at z c s (Suc n))"
  by (simp add: reset_def target_options_def Let_def toy_env_def)
     (simp add: toy_def toy_at_def)

lemma toy_run:
  assumes "rt = None \<or> rt = Some ''sparse''"
  shows "run toy (toy_env rt mt t k rc (toy_at z c s n)) (replicate m (Step [0])) =
     toy_env rt mt (t + int m) (k + int m * (if \<bar>z\<bar> < 0.05 then 1 else 0))
       (if m = 0 then rc else Some [0, 0, c]) (toy_at z c s (n + 10 * m))"
proof (induction m arbitrary: t k rc n)
  case 0
  show ?case by simp
next
  case (Suc m)
  have "n + 10 + 10 * m = n + 10 * Suc m" by simp
  then show ?case
    by (simp add: toy_step[OF assms] Suc.IH algebra_simps)
qed

lemma py_int_toy: "py_int (1 / (0.001 * 10)) = 100" "py_int 100 = 100"
  by (simp_all add: py_int_def)

lemma toy_env_sel:
  "timer (toy_env rt mt t k rc w) = t" "on_target (toy_env rt mt t k rc w) = k"
  "maxStep (toy_env rt mt t k rc w) = py_int (mt / (0.001 * 10))"
  "cfg (toy_env rt mt t k rc w) = init_parameters (toy_params rt mt) False"
  "position_target (toy_env rt mt t k rc w) = [0, 0, 0]" "world (toy_env rt mt t k rc w) = w"
  "rmodel (toy_env rt mt t k rc w) = toy_rmodel" "torqueScale (toy_env rt mt t k rc w) = [10]"
  by (simp_all add: toy_env_def)


lemma run_hundred:
  "run toy dense_example hundred_calls =
     toy_env None 1 99 0 (Some [0, 0, 1]) (toy_at 0.1 1 [1, 1, 1] 991)"
  by (simp add: hundred_calls_def dense_example_def toy_reset toy_run)

lemma step_dense_example:
  "step toy dense_example [0] = (fst (step toy dense_example [0]), Inr dense_example_result)"
  by (simp add: dense_example_result_def dense_example_def toy_step)

lemma dense_example_fields:
  "res_reward dense_example_result = Fin (- 0.2)"
  "info_tor (res_infos dense_example_result) = 0"
  "info_init (res_infos dense_example_result) = Fin 0"
  "info_dst (res_infos dense_example_result) = Fin 0.1"
  "\<not> res_truncated dense_example_result"
  "res_ob dense_example_result = toy_ob 0.1"
  by (simp_all add: dense_example_result_def dense_example_def toy_step toy_reward_def
      toy_infos_def py_int_toy)

lemma step_sparse_example:
  "step toy sparse_example [0] = (fst (step toy sparse_example [0]), Inr sparse_example_result)"
  by (simp add: sparse_example_result_def sparse_example_def toy_step)

lemma sparse_example_fields:
  "res_reward sparse_example_result = Fin 4.99"
  "info_tor (res_infos sparse_example_result) = 0"
  "info_init (res_infos sparse_example_result) = Fin 0"
  "info_dst (res_infos sparse_example_result) = Fin 0"
  "res_ob sparse_example_result = toy_ob 0"
  by (simp_all add: sparse_example_result_def sparse_example_def toy_step toy_reward_def
      toy_infos_def py_int_toy)

lemma step_sparse_far:
  "step toy sparse_far_example [0] = (fst (step toy sparse_far_example [0]), Inr sparse_far_result)"
  by (simp add: sparse_far_result_def sparse_far_example_def toy_step)

lemma sparse_far_fields:
  "res_reward sparse_far_result = Fin (- 0.01)"
  "info_tor (res_infos sparse_far_result) = 0"
  "info_init (res_infos sparse_far_result) = Fin 0"
  "info_dst (res_infos sparse_far_result) = Fin 1"
  "res_ob sparse_far_result = toy_ob 1"
  by (simp_all add: sparse_far_result_def sparse_far_example_def toy_step toy_reward_def
      toy_infos_def py_int_toy)

lemma sparse_cfgs:
  "reward_type (cfg sparse_example) = ''sparse''"
  "weight_target_reached (cfg sparse_example) = 5"
  "weight_command (cfg sparse_example) = 1"
  "threshold_success (cfg sparse_example) = 0.05"
  "reward_type (cfg sparse_far_example) = ''sparse''"
  "weight_target_reached (cfg sparse_far_example) = 5"
  "weight_command (cfg sparse_far_example) = 1"
  "threshold_success (cfg sparse_far_example) = 0.05"
  by (simp_all add: sparse_example_def sparse_far_example_def toy_env_sel toy_cfg)

lemma toy_env_rCoM: "rCoM (toy_env rt mt t k rc w) = rc"
  by (simp add: toy_env_def)

lemma toy_step_fst:
  "rt = None \<or> rt = Some ''sparse'' \<Longrightarrow>
   fst (step toy (toy_env rt mt t k rc (toy_at z c s n)) [0]) =
     toy_env rt mt (t + 1) (k + (if \<bar>z\<bar> < 0.05 then 1 else 0)) (Some [0, 0, c]) (toy_at z c s (n + 10))"
  by (simp add: toy_step)

lemma py_int_2: "py_int (0.02 / (0.001 * 10)) = 2" "py_int 2 = 2"
  by (simp_all add: py_int_def)

lemma run_three_steps:
  "run toy short_example three_steps =
     toy_env (Some ''sparse'') 0.02 3 3 (Some [0, 0, 1]) (toy_at 0 1 [1, 1, 1] 31)"
  by (simp add: three_steps_def short_example_def toy_reset toy_step_fst)

lemma init_two_joint:
  "init toy two_joint_rmodel (toy_at 0.1 1 [0, 0, 0] 0) (toy_params None 1) False
     = Inr two_joint_example"
  "torqueScale two_joint_example = [10, 10]"
  "world two_joint_example = toy_at 0.1 1 [1, 1, 1] 0"
  unfolding two_joint_example_def
  by (simp_all add: init_def init_env_variables_def toy_cfg Let_def np_diag_def np_scale_def
        two_joint_rmodel_def toy_def toy_at_def)

lemma toy_reset_bad_target:
  "snd (reset toy (toy_env rt mt t k rc (toy_at z c s n)) (target_options [0, 0])) = Inl ValueError"
  "world (fst (reset toy (toy_env rt mt t k rc (toy_at z c s n)) (target_options [0, 0])))
     = toy_at z c s (Suc n)"
  "position_target (fst (reset toy (toy_env rt mt t k rc (toy_at z c s n)) (target_options [0, 0])))
     = [0, 0]"
  by (simp_all add: reset_def target_options_def Let_def toy_env_def np_broadcast_def)
     (simp_all add: toy_def toy_at_def)

lemma toy_at_calls: "tw_calls (toy_at z c s n) = n"
  by (simp add: toy_at_def)

lemma init_flat:
  "init toy flat_rmodel (toy_at 0.1 1 [0, 0, 0] 0) flat_params False = Inr flat_example"
  "obsNorm flat_example = Some \<lparr> lowerObsLim = [1, - 2], upperObsLim = [1, 2],
                                 avgObs = [1, 0], diffObs = [0, 4] \<rparr>"
  unfolding flat_example_def
  by (simp_all add: init_def init_env_variables_def init_parameters_def flat_params_def
        toy_params_def Let_def np_diag_def np_scale_def init_obsNormalizer_def np_broadcast_def
        flat_rmodel_def toy_def toy_at_def)

section \<open>The claims\<close>

subsection \<open>C1: the sparse reward\<close>

text \<open>
  Claim C1, as the code has it. For every step that returns under the sparse reward policy,
  with goal vectors of three entries and finite features, the reward is
  \<open>- w_control * torque_norm + w_target_reached * ((1 if goal_distance < threshold else 0) - 0.002)\<close>:
  the constant 0.002 is part of the feature that \<open>w_target_reached\<close> multiplies, so the cost
  per step is \<open>0.002 * w_target_reached\<close>. With \<open>w_target_reached = 5\<close> and no torque the
  reward is 4.99 below the threshold and -0.01 above it.
\<close>

theorem sparse_reward_rule:
  assumes "step W e action = (e', Inr r)"
    and "reward_type (cfg e) = ''sparse''"
    and "length (achieved_goal (res_ob r)) = 3"
    and "length (desired_goal (res_ob r)) = 3"
    and "info_init (res_infos r) = Fin rest"
    and "info_dst (res_infos r) = Fin d"
  shows "res_reward r =
           Fin (- weight_command (cfg e) * info_tor (res_infos r)
                + weight_target_reached (cfg e)
                  * ((if d < threshold_success (cfg e) then 1 else 0) - 0.002))
       \<and> (\<forall>torques. scaleAction e action = Inr torques \<longrightarrow> info_tor (res_infos r) = np_norm_real torques)
       \<and> Fin d = np_norm (map2 fsub (achieved_goal (res_ob r)) (desired_goal (res_ob r)))
       \<and> (weight_target_reached (cfg e) = 5 \<and> info_tor (res_infos r) = 0
          \<longrightarrow> res_reward r = Fin (if d < threshold_success (cfg e) then 4.99 else - 0.01))"
proof -
  from assms(1,3,4) obtain torques where
    sc: "scaleAction e action = Inr torques"
    and tor: "info_tor (res_infos r) = np_norm_real torques"
    and dst: "info_dst (res_infos r) = np_norm (map2 fsub (achieved_goal (res_ob r)) (desired_goal (res_ob r)))"
    and pr: "info_param_rew (res_infos r) =
       [Fin (info_tor (res_infos r)), info_init (res_infos r), Fin (if res_truncated r then 0 else 1)]"
    and cr: "compute_reward e (achieved_goal (res_ob r)) (desired_goal (res_ob r)) (info_param_rew (res_infos r))
       = Inr (res_reward r)"
    by (rule step_features)
  have rw: "res_reward r =
           Fin (- weight_command (cfg e) * info_tor (res_infos r)
                + weight_target_reached (cfg e)
                  * ((if d < threshold_success (cfg e) then 1 else 0) - 0.002))"
    using cr assms(2) unfolding compute_reward_def compute_reward_sparse_def Let_def pr
    by (simp add: dst[symmetric] assms(5,6) matmul_row4 algebra_simps)
  have ex: "res_reward r = Fin (if d < threshold_success (cfg e) then 4.99 else - 0.01)"
    if "weight_target_reached (cfg e) = 5 \<and> info_tor (res_infos r) = 0"
    using rw that by simp
  from rw sc tor dst assms(6) ex show ?thesis by auto
qed

text \<open>
  The claim as stated fails: in the small instance, with \<open>w_target_reached = 5\<close>, no torque
  and the end effector on the target, the step returns 4.99 and not 4.998.
\<close>

theorem sparse_reward_below_threshold:
  "step toy sparse_example [0] = (fst (step toy sparse_example [0]), Inr sparse_example_result)
   \<and> reward_type (cfg sparse_example) = ''sparse''
   \<and> weight_target_reached (cfg sparse_example) = 5
   \<and> threshold_success (cfg sparse_example) = 0.05
   \<and> info_tor (res_infos sparse_example_result) = 0
   \<and> info_dst (res_infos sparse_example_result) = Fin 0
   \<and> res_reward sparse_example_result = Fin 4.99
   \<and> res_reward sparse_example_result \<noteq> Fin 4.998
   \<and> res_reward sparse_example_result
       \<noteq> Fin (- weight_command (cfg sparse_example) * 0
               + weight_target_reached (cfg sparse_example) * 1 - 0.002)"
  using step_sparse_example by (simp add: sparse_cfgs sparse_example_fields)

text \<open>The same configuration one metre away from the target.\<close>

theorem sparse_reward_rule_witness:
  "step toy sparse_far_example [0] = (fst (step toy sparse_far_example [0]), Inr sparse_far_result)
   \<and> reward_type (cfg sparse_far_example) = ''sparse''
   \<and> weight_target_reached (cfg sparse_far_example) = 5
   \<and> threshold_success (cfg sparse_far_example) = 0.05
   \<and> info_tor (res_infos sparse_far_result) = 0
   \<and> info_init (res_infos sparse_far_result) = Fin 0
   \<and> info_dst (res_infos sparse_far_result) = Fin 1
   \<and> res_reward sparse_far_result = Fin (- 0.01)"
proof -
  have len: "length (achieved_goal (res_ob sparse_far_result)) = 3"
    "length (desired_goal (res_ob sparse_far_result)) = 3"
    by (simp_all add: sparse_far_fields toy_ob_def)
  from sparse_reward_rule[OF step_sparse_far sparse_cfgs(5) len sparse_far_fields(3,4)]
  have "res_reward sparse_far_result = Fin (- 0.01)"
    using sparse_cfgs sparse_far_fields(2) by simp
  with step_sparse_far sparse_cfgs sparse_far_fields show ?thesis by simp
qed

subsection \<open>C2: the dense reward\<close>

text \<open>
  Claim C2. For every step that returns under the dense reward policy, with goal vectors of
  three entries and finite features, the reward is
  \<open>- w_control * torque_norm - 1 * rest_pose_cost + w_truncation * alive_flag - w_target * goal_distance\<close>,
  where \<open>alive_flag\<close> is 1 exactly when the step was not truncated, the torque norm is the
  norm of the scaled action and the goal distance is the norm of achieved minus desired
  goal. In particular the weights 1, 0, 2 with no torque, no rest-pose cost, no truncation
  and distance 0.1 give -0.2.
\<close>

theorem dense_reward_rule:
  assumes "step W e action = (e', Inr r)"
    and "reward_type (cfg e) = ''dense''"
    and "length (achieved_goal (res_ob r)) = 3"
    and "length (desired_goal (res_ob r)) = 3"
    and "info_init (res_infos r) = Fin rest"
    and "info_dst (res_infos r) = Fin d"
  shows "res_reward r =
           Fin (- weight_command (cfg e) * info_tor (res_infos r) - 1 * rest
                + weight_truncation (cfg e) * (if res_truncated r then 0 else 1)
                - weight_target (cfg e) * d)
       \<and> (\<forall>torques. scaleAction e action = Inr torques \<longrightarrow> info_tor (res_infos r) = np_norm_real torques)
       \<and> Fin d = np_norm (map2 fsub (achieved_goal (res_ob r)) (desired_goal (res_ob r)))
       \<and> (weight_command (cfg e) = 1 \<and> weight_truncation (cfg e) = 0 \<and> weight_target (cfg e) = 2
            \<and> info_tor (res_infos r) = 0 \<and> rest = 0 \<and> \<not> res_truncated r \<and> d = 0.1
          \<longrightarrow> res_reward r = Fin (- 0.2))"
proof -
  from assms(1,3,4) obtain torques where
    sc: "scaleAction e action = Inr torques"
    and tor: "info_tor (res_infos r) = np_norm_real torques"
    and dst: "info_dst (res_infos r) = np_norm (map2 fsub (achieved_goal (res_ob r)) (desired_goal (res_ob r)))"
    and pr: "info_param_rew (res_infos r) =
       [Fin (info_tor (res_infos r)), info_init (res_infos r), Fin (if res_truncated r then 0 else 1)]"
    and cr: "compute_reward e (achieved_goal (res_ob r)) (desired_goal (res_ob r)) (info_param_rew (res_infos r))
       = Inr (res_reward r)"
    by (rule step_features)
  have rw: "res_reward r =
           Fin (- weight_command (cfg e) * info_tor (res_infos r) - 1 * rest
                + weight_truncation (cfg e) * (if res_truncated r then 0 else 1)
                - weight_target (cfg e) * d)"
    using cr assms(2) unfolding compute_reward_def compute_reward_dense_def Let_def pr
    by (simp add: dst[symmetric] assms(5,6) matmul_row4 algebra_simps)
  have ex: "res_reward r = Fin (- 0.2)"
    if "weight_command (cfg e) = 1 \<and> weight_truncation (cfg e) = 0 \<and> weight_target (cfg e) = 2
            \<and> info_tor (res_infos r) = 0 \<and> rest = 0 \<and> \<not> res_truncated r \<and> d = 0.1"
    using rw that by simp
  from rw sc tor dst assms(6) ex show ?thesis by auto
qed

text \<open>The example of the specification, evaluated in the small instance.\<close>

theorem dense_reward_rule_witness:
  "step toy dense_example [0] = (fst (step toy dense_example [0]), Inr dense_example_result)
   \<and> reward_type (cfg dense_example) = ''dense''
   \<and> weight_command (cfg dense_example) = 1
   \<and> weight_truncation (cfg dense_example) = 0
   \<and> weight_target (cfg dense_example) = 2
   \<and> info_tor (res_infos dense_example_result) = 0
   \<and> info_init (res_infos dense_example_result) = Fin 0
   \<and> info_dst (res_infos dense_example_result) = Fin 0.1
   \<and> \<not> res_truncated dense_example_result
   \<and> res_reward dense_example_result = Fin (- 0.2)"
proof -
  have cfgs: "reward_type (cfg dense_example) = ''dense''"
    "weight_command (cfg dense_example) = 1"
    "weight_truncation (cfg dense_example) = 0"
    "weight_target (cfg dense_example) = 2"
    by (simp_all add: dense_example_def toy_env_sel toy_cfg)
  have len: "length (achieved_goal (res_ob dense_example_result)) = 3"
    "length (desired_goal (res_ob dense_example_result)) = 3"
    by (simp_all add: dense_example_fields toy_ob_def)
  from dense_reward_rule[OF step_dense_example cfgs(1) len dense_example_fields(3,4)]
  have "res_reward dense_example_result = Fin (- 0.2)"
    using cfgs dense_example_fields(2,5) by simp
  with step_dense_example cfgs dense_example_fields show ?thesis by simp
qed

subsection \<open>C3: the terminated flag\<close>



subsection \<open>C4: the truncated flag\<close>

text \<open>
  Claim C4. For every step that returns, with the centre of mass \<open>com\<close> stored by the step,
  the state vector \<open>x\<close> measured after the simulator ticks, and arrays of the shapes of the
  model (\<open>nq\<close> positions, \<open>nv\<close> velocities, a balance box of the dimension of \<open>com\<close>), the
  truncated flag is true if and only if the centre of mass is outside the balance box on
  some axis, or some joint position is above \<open>limitPosScale\<close> times its upper limit or below
  \<open>limitPosScale\<close> times its lower limit, or some joint velocity is larger in magnitude
  than \<open>limitVelScale\<close> times its limit. A centre of mass outside the box truncates
  whatever the other features are.
\<close>

theorem truncation_rule:
  assumes "step W e action = (e', Inr r)"
    and "scaleAction e action = Inr torques"
    and "x = measured W e torques"
    and "rCoM e' = Some com"
    and "length com = length (lowerLimitPos (cfg e))"
    and "length com = length (upperLimitPos (cfg e))"
    and "length x = nq (rmodel e) + nv (rmodel e)"
    and "length (upperPositionLimit (rmodel e)) = nq (rmodel e)"
    and "length (lowerPositionLimit (rmodel e)) = nq (rmodel e)"
    and "length (velocityLimit (rmodel e)) = nv (rmodel e)"
  shows "(res_truncated r \<longleftrightarrow>
            (\<exists>i<length com. com ! i < lowerLimitPos (cfg e) ! i \<or> upperLimitPos (cfg e) ! i < com ! i)
          \<or> (\<exists>i<nq (rmodel e).
                 limitPosScale (cfg e) * upperPositionLimit (rmodel e) ! i < x ! i
               \<or> x ! i < limitPosScale (cfg e) * lowerPositionLimit (rmodel e) ! i)
          \<or> (\<exists>i<nv (rmodel e).
                 limitVelScale (cfg e) * velocityLimit (rmodel e) ! i < \<bar>x ! (nq (rmodel e) + i)\<bar>))
       \<and> ((\<exists>i<length com. com ! i < lowerLimitPos (cfg e) ! i \<or> upperLimitPos (cfg e) ! i < com ! i)
            \<longrightarrow> res_truncated r)"
proof -
  let ?E = "stepped W e torques"
  have com: "rCoM ?E = Some com"
    using rCoM_step_Inr(1)[OF assms(1,2)] assms(4) by simp
  have ct: "checkTruncation ?E x = Inr (res_truncated r)"
    using rCoM_step_Inr(2)[OF assms(1,2)] assms(3) by simp
  have tk: "length (take (nq (rmodel e)) x) = nq (rmodel e)"
    using assms(7) by simp
  have a1: "np_any (<) com (lowerLimitPos (cfg e))
     = Inr (\<exists>i<length com. com ! i < lowerLimitPos (cfg e) ! i)"
    by (rule np_any_same) (rule assms(5))
  have a2: "np_any (>) com (upperLimitPos (cfg e))
     = Inr (\<exists>i<length com. upperLimitPos (cfg e) ! i < com ! i)"
    using np_any_same[of com "upperLimitPos (cfg e)" "(>)"] assms(6) by simp
  have a3: "np_any (>) (take (nq (rmodel e)) x) (np_scale (limitPosScale (cfg e)) (upperPositionLimit (rmodel e)))
     = Inr (\<exists>i<nq (rmodel e). limitPosScale (cfg e) * upperPositionLimit (rmodel e) ! i < x ! i)"
    using np_any_same[of "take (nq (rmodel e)) x"
        "np_scale (limitPosScale (cfg e)) (upperPositionLimit (rmodel e))" "(>)"] tk assms(8)
    by (auto simp: np_scale_def)
  have a4: "np_any (<) (take (nq (rmodel e)) x) (np_scale (limitPosScale (cfg e)) (lowerPositionLimit (rmodel e)))
     = Inr (\<exists>i<nq (rmodel e). x ! i < limitPosScale (cfg e) * lowerPositionLimit (rmodel e) ! i)"
    using np_any_same[of "take (nq (rmodel e)) x"
        "np_scale (limitPosScale (cfg e)) (lowerPositionLimit (rmodel e))" "(<)"] tk assms(9)
    by (auto simp: np_scale_def)
  have a5: "np_any (>) (map abs (py_last (nv (rmodel e)) x)) (np_scale (limitVelScale (cfg e)) (velocityLimit (rmodel e)))
     = Inr b \<Longrightarrow> b = (\<exists>i<nv (rmodel e).
                 limitVelScale (cfg e) * velocityLimit (rmodel e) ! i < \<bar>x ! (nq (rmodel e) + i)\<bar>)" for b
  proof (cases "nv (rmodel e) = 0")
    case True
    assume "np_any (>) (map abs (py_last (nv (rmodel e)) x)) (np_scale (limitVelScale (cfg e)) (velocityLimit (rmodel e))) = Inr b"
    with True assms(10) have "\<not> b"
      by (intro np_any_Nil[of "(>)" "map abs (py_last (nv (rmodel e)) x)"]) (simp add: np_scale_def)
    with True show ?thesis by simp
  next
    case False
    assume h: "np_any (>) (map abs (py_last (nv (rmodel e)) x)) (np_scale (limitVelScale (cfg e)) (velocityLimit (rmodel e))) = Inr b"
    have l: "length (map abs (py_last (nv (rmodel e)) x)) = length (np_scale (limitVelScale (cfg e)) (velocityLimit (rmodel e)))"
      using False assms(7,10) by (simp add: py_last_def np_scale_def)
    have n: "map abs (py_last (nv (rmodel e)) x) ! i = \<bar>x ! (nq (rmodel e) + i)\<bar>" if "i < nv (rmodel e)" for i
      using that False assms(7) by (simp add: py_last_def)
    from h show ?thesis
      unfolding np_any_same[OF l]
      using n assms(7,10) False by (auto simp: np_scale_def py_last_def)
  qed
  from ct have iff: "res_truncated r \<longleftrightarrow>
            (\<exists>i<length com. com ! i < lowerLimitPos (cfg e) ! i \<or> upperLimitPos (cfg e) ! i < com ! i)
          \<or> (\<exists>i<nq (rmodel e).
                 limitPosScale (cfg e) * upperPositionLimit (rmodel e) ! i < x ! i
               \<or> x ! i < limitPosScale (cfg e) * lowerPositionLimit (rmodel e) ! i)
          \<or> (\<exists>i<nv (rmodel e).
                 limitVelScale (cfg e) * velocityLimit (rmodel e) ! i < \<bar>x ! (nq (rmodel e) + i)\<bar>)"
    unfolding checkTruncation_def com option.case cfg_stepped stepped_fields a1 a2 a3 a4 bind_err.simps
    by (auto simp: bind_err_Inr split: if_splits dest!: a5)
  then show ?thesis by blast
qed

text \<open>A centre of mass above the box in the small instance.\<close>

theorem truncation_rule_witness:
  "step toy trunc_example [0]
     = (fst (step toy trunc_example [0]), Inr (projr (snd (step toy trunc_example [0]))))
   \<and> rCoM (fst (step toy trunc_example [0])) = Some [0, 0, 2]
   \<and> upperLimitPos (cfg trunc_example) = [0.5, 0.5, 1.5]
   \<and> res_truncated (projr (snd (step toy trunc_example [0])))"
proof -
  let ?r = "projr (snd (step toy trunc_example [0]))"
  have s: "step toy trunc_example [0] = (fst (step toy trunc_example [0]), Inr ?r)"
    by (simp add: trunc_example_def toy_step)
  have sc: "scaleAction trunc_example [0] = Inr [0]"
    by (simp add: trunc_example_def toy_scale)
  have x: "[0, 0] = measured toy trunc_example [0]"
    by (simp add: trunc_example_def toy_measured)
  have com: "rCoM (fst (step toy trunc_example [0])) = Some [0, 0, 2]"
    by (simp add: trunc_example_def toy_step toy_env_rCoM)
  have up: "upperLimitPos (cfg trunc_example) = [0.5, 0.5, 1.5]"
    and lo: "lowerLimitPos (cfg trunc_example) = [- 0.5, - 0.5, 0.9]"
    and rm: "rmodel trunc_example = toy_rmodel"
    by (simp_all add: trunc_example_def toy_env_sel toy_cfg)
  have out: "\<exists>i<length [0, 0, 2::real]. [0, 0, 2] ! i < lowerLimitPos (cfg trunc_example) ! i
               \<or> upperLimitPos (cfg trunc_example) ! i < [0, 0, 2] ! i"
    by (rule exI[of _ 2]) (simp add: up)
  from truncation_rule[OF s sc x com] out have "res_truncated ?r"
    by (simp add: up lo rm toy_rmodel_def)
  with s com up show ?thesis by simp
qed

subsection \<open>C5: what \<^verbatim>\<open>reset\<close> does to the counters and the target\<close>

text \<open>
  Claim C5, as the code has it. Every call of \<^verbatim>\<open>reset\<close> sets the timer and \<open>on_target\<close> to
  zero; the target of the episode is the caller's override when \<^verbatim>\<open>options\<close> has the key
  \<^verbatim>\<open>"target"\<close>, and a fresh sample of the goal sampler when \<^verbatim>\<open>options\<close> is \<^verbatim>\<open>None\<close>.
\<close>

theorem reset_target_rule:
  "timer (fst (reset W e options)) = 0
   \<and> on_target (fst (reset W e options)) = 0
   \<and> (options = None \<longrightarrow>
        position_target (fst (reset W e options)) = fst (create_target W (world e)))
   \<and> (\<forall>d tgt. options = Some d \<and> d ''target'' = Some tgt \<longrightarrow>
        position_target (fst (reset W e options)) = tgt)"
proof -
  have "position_target (fst (reset W e None)) = fst (create_target W (world e))"
    by (simp add: reset_def Let_def split: prod.split)
  moreover have "position_target (fst (reset W e (Some d))) = tgt" if "d ''target'' = Some tgt" for d tgt
    using that by (simp add: reset_def Let_def)
  ultimately show ?thesis
    by (auto simp: reset_fields)
qed

text \<open>
  The claim as stated fails for an \<^verbatim>\<open>options\<close> dictionary without the key \<^verbatim>\<open>"target"\<close>: no
  override is supplied, and yet no sample is drawn; the target of the previous episode
  stays.
\<close>

theorem reset_without_target_key:
  "position_target dense_example = [0, 0, 0]
   \<and> fst (create_target toy (world dense_example)) = [1, 1, 1]
   \<and> position_target (fst (reset toy dense_example no_target_options)) = [0, 0, 0]
   \<and> position_target (fst (reset toy dense_example no_target_options))
       \<noteq> fst (create_target toy (world dense_example))"
  by (simp add: reset_def no_target_options_def Let_def dense_example_def toy_env_sel)
     (simp add: toy_def toy_at_def)

text \<open>A reset without options and a reset with an override in the small instance.\<close>

theorem reset_target_rule_witness:
  "position_target (fst (reset toy dense_example None)) = [1, 1, 1]
   \<and> fst (create_target toy (world dense_example)) = [1, 1, 1]
   \<and> target_options [1, 2, 3] = Some (\<lambda>key. if key = ''target'' then Some [1, 2, 3] else None)
   \<and> position_target (fst (reset toy dense_example (target_options [1, 2, 3]))) = [1, 2, 3]
   \<and> timer (fst (reset toy dense_example None)) = 0
   \<and> on_target (fst (reset toy dense_example None)) = 0"
proof -
  have c: "fst (create_target toy (world dense_example)) = [1, 1, 1]"
    by (simp add: dense_example_def toy_env_sel) (simp add: toy_def toy_at_def)
  have t: "target_options [1, 2, 3] = Some (\<lambda>key. if key = ''target'' then Some [1, 2, 3] else None)"
    by (simp add: target_options_def)
  from reset_target_rule[of toy dense_example None] c
  have 1: "position_target (fst (reset toy dense_example None)) = [1, 1, 1]"
    "timer (fst (reset toy dense_example None)) = 0"
    "on_target (fst (reset toy dense_example None)) = 0"
    by simp_all
  from reset_target_rule[of toy dense_example "target_options [1, 2, 3]"] t
  have 2: "position_target (fst (reset toy dense_example (target_options [1, 2, 3]))) = [1, 2, 3]"
    by simp
  from 1 2 c t show ?thesis by simp
qed

subsection \<open>C6: calls that the caller should not make\<close>

text \<open>
  Claim C6, as the code has it. Neither \<^verbatim>\<open>step\<close> nor \<^verbatim>\<open>reset\<close> validates its call. A \<^verbatim>\<open>step\<close> on
  a freshly constructed environment, before any \<^verbatim>\<open>reset\<close>, is an ordinary first step: the
  timer becomes 1 and, when the action can be broadcast against the torque scale, the
  simulator is advanced by \<open>numSimulationSteps\<close> ticks; the only error before the simulator
  is touched is numpy's \<^verbatim>\<open>ValueError\<close> for an action of the wrong shape. A \<^verbatim>\<open>reset\<close> with a
  target override stores the override, whatever its dimension, and resets the simulator
  with it before anything can fail.
\<close>

theorem no_call_validation:
  "(\<forall>torques. init W rm w p gui = Inr e0 \<and> scaleAction e0 action = Inr torques \<longrightarrow>
      timer (fst (step W e0 action)) = 1
      \<and> world (fst (step W e0 action)) =
          (let w1 = sim_steps W torques (nat (numSimulationSteps (cfg e0))) (world e0)
           in update_reduced_model W (getRobotState W w1) (getRobotPos W w1) w1))
   \<and> (\<forall>err. init W rm w p gui = Inr e0 \<and> scaleAction e0 action = Inl err \<longrightarrow>
      err = ValueError \<and> snd (step W e0 action) = Inl ValueError
      \<and> world (fst (step W e0 action)) = world e0)
   \<and> (\<forall>d tgt. options = Some d \<and> d ''target'' = Some tgt \<longrightarrow>
      position_target (fst (reset W e options)) = tgt
      \<and> world (fst (reset W e options)) =
          (let w1 = sim_reset W tgt (world e)
           in update_reduced_model W (getRobotState W w1) (getRobotPos W w1) w1))"
proof -
  have a: "timer (fst (step W e0 action)) = 1
      \<and> world (fst (step W e0 action)) =
          (let w1 = sim_steps W torques (nat (numSimulationSteps (cfg e0))) (world e0)
           in update_reduced_model W (getRobotState W w1) (getRobotPos W w1) w1)"
    if "init W rm w p gui = Inr e0" "scaleAction e0 action = Inr torques" for torques
    using init_Inr(3)[OF that(1)] world_step(1)[OF that(2), of W]
    by (simp add: timer_step stepped_def after_sim_def Let_def)
  have b: "err = ValueError \<and> snd (step W e0 action) = Inl ValueError
      \<and> world (fst (step W e0 action)) = world e0"
    if "scaleAction e0 action = Inl err" for err
    using world_step(2)[OF that, of W] np_broadcast_Inl[of "(*)" "torqueScale e0" action err] that
    by (simp add: scaleAction_def)
  have c: "position_target (fst (reset W e (Some d))) = tgt
      \<and> world (fst (reset W e (Some d))) =
          (let w1 = sim_reset W tgt (world e)
           in update_reduced_model W (getRobotState W w1) (getRobotPos W w1) w1)"
    if "d ''target'' = Some tgt" for d tgt
    using that by (simp add: reset_def Let_def)
  from a b c show ?thesis by blast
qed

text \<open>
  The claim as stated fails: a \<^verbatim>\<open>step\<close> right after construction returns normally, after ten
  simulator ticks, and a \<^verbatim>\<open>reset\<close> with a target of two entries raises \<^verbatim>\<open>ValueError\<close> only
  after the simulator has been reset.
\<close>

theorem step_before_reset_returns:
  "init toy toy_rmodel (toy_at 0.1 1 [0, 0, 0] 0) (toy_params None 1) False = Inr dense_example
   \<and> \<not> isl (snd (step toy dense_example [0]))
   \<and> tw_calls (world dense_example) = 0
   \<and> tw_calls (world (fst (step toy dense_example [0]))) = 10
   \<and> snd (reset toy dense_example (target_options [0, 0])) = Inl ValueError
   \<and> tw_calls (world (fst (reset toy dense_example (target_options [0, 0])))) = 1"
proof -
  have "init toy toy_rmodel (toy_at 0.1 1 [0, 0, 0] 0) (toy_params None 1) False = Inr dense_example"
    by (simp add: toy_init dense_example_def)
  moreover have "\<not> isl (snd (step toy dense_example [0]))"
    by (simp add: dense_example_def toy_step)
  moreover have "tw_calls (world (fst (step toy dense_example [0]))) = 10"
    by (simp add: dense_example_def toy_step toy_env_sel toy_at_calls)
  moreover have "tw_calls (world dense_example) = 0"
    by (simp add: dense_example_def toy_env_sel toy_at_calls)
  moreover have "snd (reset toy dense_example (target_options [0, 0])) = Inl ValueError"
    "tw_calls (world (fst (reset toy dense_example (target_options [0, 0])))) = 1"
    by (simp_all add: dense_example_def toy_reset_bad_target toy_at_calls)
  ultimately show ?thesis by simp
qed

text \<open>The three cases in the small instances.\<close>

theorem no_call_validation_witness:
  "init toy toy_rmodel (toy_at 0.1 1 [0, 0, 0] 0) (toy_params None 1) False = Inr dense_example
   \<and> scaleAction dense_example [0] = Inr [0]
   \<and> timer (fst (step toy dense_example [0])) = 1
   \<and> world (fst (step toy dense_example [0])) = toy_at 0.1 1 [1, 1, 1] 10
   \<and> init toy two_joint_rmodel (toy_at 0.1 1 [0, 0, 0] 0) (toy_params None 1) False
       = Inr two_joint_example
   \<and> scaleAction two_joint_example [0, 0, 0] = Inl ValueError
   \<and> snd (step toy two_joint_example [0, 0, 0]) = Inl ValueError
   \<and> world (fst (step toy two_joint_example [0, 0, 0])) = toy_at 0.1 1 [1, 1, 1] 0
   \<and> target_options [0, 0] = Some (\<lambda>key. if key = ''target'' then Some [0, 0] else None)
   \<and> position_target (fst (reset toy dense_example (target_options [0, 0]))) = [0, 0]
   \<and> world (fst (reset toy dense_example (target_options [0, 0]))) = toy_at 0.1 1 [1, 1, 1] 1"
proof -
  have i: "init toy toy_rmodel (toy_at 0.1 1 [0, 0, 0] 0) (toy_params None 1) False = Inr dense_example"
    by (simp add: toy_init dense_example_def)
  have s: "scaleAction dense_example [0] = Inr [0]"
    by (simp add: dense_example_def toy_scale)
  have s3: "scaleAction two_joint_example [0, 0, 0] = Inl ValueError"
    by (simp add: scaleAction_def init_two_joint np_broadcast_def)
  have t: "target_options [0, 0] = Some (\<lambda>key. if key = ''target'' then Some [0, 0] else None)"
    by (simp add: target_options_def)
  have w: "world (fst (step toy dense_example [0])) = toy_at 0.1 1 [1, 1, 1] 10"
    by (simp add: dense_example_def toy_step toy_env_sel)
  have r: "world (fst (reset toy dense_example (target_options [0, 0]))) = toy_at 0.1 1 [1, 1, 1] 1"
    by (simp add: dense_example_def toy_reset_bad_target)
  from no_call_validation[of toy toy_rmodel "toy_at 0.1 1 [0, 0, 0] 0" "toy_params None 1" False
      dense_example "[0]" "target_options [0, 0]" dense_example] i s t
  have 1: "timer (fst (step toy dense_example [0])) = 1"
    "position_target (fst (reset toy dense_example (target_options [0, 0]))) = [0, 0]"
    by simp_all
  from no_call_validation[of toy two_joint_rmodel "toy_at 0.1 1 [0, 0, 0] 0" "toy_params None 1" False
      two_joint_example "[0, 0, 0]" None dense_example] init_two_joint s3
  have 2: "snd (step toy two_joint_example [0, 0, 0]) = Inl ValueError"
    "world (fst (step toy two_joint_example [0, 0, 0])) = toy_at 0.1 1 [1, 1, 1] 0"
    by simp_all
  from i s s3 t w r 1 2 init_two_joint(1) show ?thesis by simp
qed

subsection \<open>C7: a zero normalisation range\<close>

text \<open>
  Claim C7, as the code has it. Construction does not validate the normalisation range:
  for position limits of equal length \<^verbatim>\<open>_init_obsNormalizer\<close> succeeds and stores the
  range \<open>upper - lower\<close>, zero components included, and a \<^verbatim>\<open>ZeroDivisionError\<close> at
  construction comes only from a control period \<open>timeStepSimulation * numSimulationSteps\<close>
  of zero. A later normalisation call on a vector of the length of the limits raises
  nothing either: it returns \<open>(x - mid) / range\<close> for every component with a range other
  than zero, and a non-finite float where the range is zero.
\<close>

theorem normalizer_no_validation:
  "(length (lowerPositionLimit rm) = length (upperPositionLimit rm) \<longrightarrow>
      init_obsNormalizer rm =
        Inr \<lparr> lowerObsLim = lowerPositionLimit rm @ map uminus (velocityLimit rm),
              upperObsLim = upperPositionLimit rm @ velocityLimit rm,
              avgObs = map (\<lambda>x. x / 2)
                         (map2 (+) (upperPositionLimit rm @ velocityLimit rm)
                                   (lowerPositionLimit rm @ map uminus (velocityLimit rm))),
              diffObs = map2 (-) (upperPositionLimit rm @ velocityLimit rm)
                                 (lowerPositionLimit rm @ map uminus (velocityLimit rm)) \<rparr>)
   \<and> (init W rm w p gui = Inl ZeroDivisionError \<longrightarrow>
        p_timeStepSimulation p * of_int (p_numSimulationSteps p) = 0)
   \<and> (\<forall>n. obsNorm e = Some n \<and> length x = length (avgObs n) \<and> length x = length (diffObs n) \<longrightarrow>
        obsNormalizer e x =
          Inr (map (\<lambda>i. if diffObs n ! i = 0 then NonFinite
                          else Fin ((x ! i - avgObs n ! i) / diffObs n ! i)) [0..<length x]))"
proof -
  have a: "init_obsNormalizer rm =
        Inr \<lparr> lowerObsLim = lowerPositionLimit rm @ map uminus (velocityLimit rm),
              upperObsLim = upperPositionLimit rm @ velocityLimit rm,
              avgObs = map (\<lambda>x. x / 2)
                         (map2 (+) (upperPositionLimit rm @ velocityLimit rm)
                                   (lowerPositionLimit rm @ map uminus (velocityLimit rm))),
              diffObs = map2 (-) (upperPositionLimit rm @ velocityLimit rm)
                                 (lowerPositionLimit rm @ map uminus (velocityLimit rm)) \<rparr>"
    if "length (lowerPositionLimit rm) = length (upperPositionLimit rm)"
    using that by (simp add: init_obsNormalizer_def Let_def np_broadcast_def)
  from a init_ZeroDivision[of W rm w p gui] obsNormalizer_same[of e _ x] show ?thesis
    by blast
qed

text \<open>
  The claim as stated fails: with normalisation enabled and equal lower and upper limits
  construction succeeds, and the later call returns a non-finite component without any
  error.
\<close>

theorem zero_range_construction_succeeds:
  "p_normalizeObs flat_params
   \<and> lowerPositionLimit flat_rmodel = [1] \<and> upperPositionLimit flat_rmodel = [1]
   \<and> init toy flat_rmodel (toy_at 0.1 1 [0, 0, 0] 0) flat_params False = Inr flat_example
   \<and> init toy flat_rmodel (toy_at 0.1 1 [0, 0, 0] 0) flat_params False \<noteq> Inl ZeroDivisionError
   \<and> map_option diffObs (obsNorm flat_example) = Some [0, 4]
   \<and> obsNormalizer flat_example [1, 1] = Inr [NonFinite, Fin (1 / 4)]"
proof -
  have "obsNormalizer flat_example [1, 1] = Inr [NonFinite, Fin (1 / 4)]"
    by (simp add: obsNormalizer_def init_flat np_broadcast_def np_true_divide_def)
  moreover have "p_normalizeObs flat_params"
    by (simp add: flat_params_def)
  moreover have "lowerPositionLimit flat_rmodel = [1] \<and> upperPositionLimit flat_rmodel = [1]"
    by (simp add: flat_rmodel_def)
  ultimately show ?thesis
    by (simp add: init_flat)
qed

text \<open>The zero-range model, a control period of zero, and a normalisation call.\<close>

theorem normalizer_no_validation_witness:
  "length (lowerPositionLimit flat_rmodel) = length (upperPositionLimit flat_rmodel)
   \<and> map_sum id diffObs (init_obsNormalizer flat_rmodel) = Inr [0, 4]
   \<and> init toy flat_rmodel (toy_at 0.1 1 [0, 0, 0] 0) ((toy_params None 1)\<lparr>p_numSimulationSteps := 0\<rparr>) False
       = Inl ZeroDivisionError
   \<and> p_timeStepSimulation ((toy_params None 1)\<lparr>p_numSimulationSteps := 0\<rparr>)
       * of_int (p_numSimulationSteps ((toy_params None 1)\<lparr>p_numSimulationSteps := 0\<rparr>)) = 0
   \<and> map_option diffObs (obsNorm flat_example) = Some [0, 4]
   \<and> map_option avgObs (obsNorm flat_example) = Some [1, 0]
   \<and> obsNormalizer flat_example [3, 1] = Inr [NonFinite, Fin (1 / 4)]"
proof -
  have l: "length (lowerPositionLimit flat_rmodel) = length (upperPositionLimit flat_rmodel)"
    by (simp add: flat_rmodel_def)
  have z: "init toy flat_rmodel (toy_at 0.1 1 [0, 0, 0] 0) ((toy_params None 1)\<lparr>p_numSimulationSteps := 0\<rparr>) False
       = Inl ZeroDivisionError"
    by (simp add: init_def init_env_variables_def init_parameters_def toy_params_def Let_def
        split: prod.split)
  have n: "obsNorm flat_example = Some \<lparr> lowerObsLim = [1, - 2], upperObsLim = [1, 2],
                                 avgObs = [1, 0], diffObs = [0, 4] \<rparr>"
    by (rule init_flat)
  from normalizer_no_validation[of flat_rmodel toy "toy_at 0.1 1 [0, 0, 0] 0"
      "(toy_params None 1)\<lparr>p_numSimulationSteps := 0\<rparr>" False flat_example "[3, 1]"] l z n
  have "map_sum id diffObs (init_obsNormalizer flat_rmodel) = Inr [0, 4]"
    "p_timeStepSimulation ((toy_params None 1)\<lparr>p_numSimulationSteps := 0\<rparr>)
       * of_int (p_numSimulationSteps ((toy_params None 1)\<lparr>p_numSimulationSteps := 0\<rparr>)) = 0"
    "obsNormalizer flat_example [3, 1] = Inr [NonFinite, Fin (1 / 4)]"
    by (simp_all add: flat_rmodel_def upt_conv_Cons)
  with l z n show ?thesis by simp
qed

subsection \<open>C8: the \<open>on_target\<close> counter\<close>

text \<open>
  Claim C8, as the code has it. In any sequence of calls on a constructed environment the
  counter \<open>on_target\<close> never decreases across a call of \<^verbatim>\<open>step\<close>: a step that returns adds one
  when its goal distance is below the success threshold and nothing otherwise, and a step
  that raises leaves it alone. It lies between zero and the number of steps made since
  the last reset, and therefore in \<open>[0, maxStep]\<close> as long as no more than \<open>maxStep\<close> steps
  have been made since the last reset.
\<close>

theorem on_target_counter:
  assumes "init W rm w p gui = Inr e0"
  shows "0 \<le> on_target (run W e0 calls)
       \<and> on_target (run W e0 calls) \<le> steps_since_reset calls
       \<and> (steps_since_reset calls \<le> maxStep (run W e0 calls)
            \<longrightarrow> on_target (run W e0 calls) \<le> maxStep (run W e0 calls))
       \<and> on_target (run W e0 calls) \<le> on_target (fst (step W (run W e0 calls) action))
       \<and> (\<forall>e' r. step W (run W e0 calls) action = (e', Inr r) \<longrightarrow>
             on_target e' = on_target (run W e0 calls)
               + (if norm_less (info_dst (res_infos r)) (threshold_success (cfg e0)) then 1 else 0))
       \<and> (\<forall>err. snd (step W (run W e0 calls) action) = Inl err \<longrightarrow>
             on_target (fst (step W (run W e0 calls) action)) = on_target (run W e0 calls))"
proof -
  have t0: "timer e0 = 0" and k0: "on_target e0 = 0"
    using init_Inr(3,4)[OF assms] by simp_all
  have b: "0 \<le> on_target (run W e0 calls)" "on_target (run W e0 calls) \<le> steps_since_reset calls"
    using run_on_target[OF t0 k0, of W calls] run_timer[OF t0, of W calls] by simp_all
  have m: "on_target (run W e0 calls) \<le> on_target (fst (step W (run W e0 calls) action))"
    using on_target_step[of W "run W e0 calls" action] by auto
  have i: "on_target e' = on_target (run W e0 calls)
               + (if norm_less (info_dst (res_infos r)) (threshold_success (cfg e0)) then 1 else 0)"
    if "step W (run W e0 calls) action = (e', Inr r)" for e' r
    using on_target_step_Inr[OF that] by (simp add: run_fields)
  have u: "on_target (fst (step W (run W e0 calls) action)) = on_target (run W e0 calls)"
    if "snd (step W (run W e0 calls) action) = Inl err" for err
    using that by (rule on_target_step_Inl)
  from b m i u show ?thesis by auto
qed

text \<open>
  The bound \<open>on_target \<le> maxStep\<close> fails as stated: \<^verbatim>\<open>step\<close> has no guard, so a caller who
  goes on stepping after the budget of two steps is used up gets a counter of three.
\<close>

theorem on_target_exceeds_maxStep:
  "init toy toy_rmodel (toy_at 0 1 [0, 0, 0] 0) (toy_params (Some ''sparse'') 0.02) False
     = Inr short_example
   \<and> maxStep (run toy short_example three_steps) = 2
   \<and> on_target (run toy short_example three_steps) = 3
   \<and> \<not> on_target (run toy short_example three_steps) \<le> maxStep (run toy short_example three_steps)"
proof -
  have "init toy toy_rmodel (toy_at 0 1 [0, 0, 0] 0) (toy_params (Some ''sparse'') 0.02) False
     = Inr short_example"
    by (simp add: toy_init short_example_def)
  moreover have "maxStep (run toy short_example three_steps) = 2"
    "on_target (run toy short_example three_steps) = 3"
    by (simp_all add: run_three_steps toy_env_sel py_int_2)
  ultimately show ?thesis by simp
qed

text \<open>The first step of the sparse example, on the target.\<close>

theorem on_target_counter_witness:
  "init toy toy_rmodel (toy_at 0 1 [0, 0, 0] 0) (toy_params (Some ''sparse'') 1) False
     = Inr sparse_example
   \<and> steps_since_reset [] \<le> maxStep (run toy sparse_example [])
   \<and> on_target (run toy sparse_example []) = 0
   \<and> step toy (run toy sparse_example []) [0]
       = (fst (step toy sparse_example [0]), Inr sparse_example_result)
   \<and> norm_less (info_dst (res_infos sparse_example_result)) (threshold_success (cfg sparse_example))
   \<and> on_target (fst (step toy sparse_example [0])) = 1"
proof -
  have i: "init toy toy_rmodel (toy_at 0 1 [0, 0, 0] 0) (toy_params (Some ''sparse'') 1) False
     = Inr sparse_example"
    by (simp add: toy_init sparse_example_def)
  have s: "step toy (run toy sparse_example []) [0]
       = (fst (step toy sparse_example [0]), Inr sparse_example_result)"
    using step_sparse_example by simp
  have n: "norm_less (info_dst (res_infos sparse_example_result)) (threshold_success (cfg sparse_example))"
    by (simp add: sparse_example_fields sparse_cfgs)
  have m: "steps_since_reset [] \<le> maxStep (run toy sparse_example [])"
    by (simp add: steps_since_reset_def sparse_example_def toy_env_sel py_int_toy)
  have k: "on_target (run toy sparse_example []) = 0"
    by (simp add: sparse_example_def toy_env_sel)
  from on_target_counter[OF i, of "[]" "[0]"] s n k
  have "on_target (fst (step toy sparse_example [0])) = 1"
    by simp
  with i s n m k show ?thesis by simp
qed

subsection \<open>C9: the scaled torque\<close>



subsection \<open>C10: termination is absorbing\<close>

text \<open>
  Claim C10. Once a step has returned terminated, every later step made without a reset in
  between that returns, returns terminated too: each call of \<^verbatim>\<open>step\<close> adds one to the timer,
  whether it returns or raises, and none decreases \<open>on_target\<close>.
\<close>

theorem termination_absorbing:
  assumes "step W e a = (e1, Inr r1)"
    and "res_terminated r1"
    and "step W (run W e1 (map Step as)) a' = (e2, Inr r2)"
  shows "res_terminated r2 \<and> timer e2 = timer e1 + int (length as) + 1 \<and> on_target e1 \<le> on_target e2"
proof -
  have mono: "timer (run W e1 (map Step as)) = timer e1 + int (length as)
      \<and> on_target e1 \<le> on_target (run W e1 (map Step as))
      \<and> maxStep (run W e1 (map Step as)) = maxStep e1"
  proof (induction as rule: rev_induct)
    case Nil
    show ?case by simp
  next
    case (snoc x xs)
    with on_target_step[of W "run W e1 (map Step xs)" x] show ?case
      by (auto simp: run_snoc timer_step maxStep_step)
  qed
  have e2: "e2 = fst (step W (run W e1 (map Step as)) a')"
    using assms(3) by simp
  have t1: "checkTermination e1"
    using assms(1,2) by (elim step_Inr) simp
  have t2: "res_terminated r2 = checkTermination e2"
    using assms(3) by (elim step_Inr) simp
  have tm: "timer e2 = timer e1 + int (length as) + 1"
    using mono by (simp add: e2 timer_step)
  have ot: "on_target e1 \<le> on_target e2"
    using mono on_target_step[of W "run W e1 (map Step as)" a'] by (auto simp: e2)
  have ms: "maxStep e2 = maxStep e1"
    using mono by (simp add: e2 maxStep_step)
  from t1 tm ot ms have "checkTermination e2"
    by (auto simp: checkTermination_def)
  with t2 tm ot show ?thesis by simp
qed

text \<open>Two more steps after the hundredth one of the small instance, then a third.\<close>

theorem termination_absorbing_witness:
  "\<not> isl (snd (step toy (run toy dense_example hundred_calls) [0]))
   \<and> res_terminated (projr (snd (step toy (run toy dense_example hundred_calls) [0])))
   \<and> \<not> isl (snd (step toy (run toy (fst (step toy (run toy dense_example hundred_calls) [0]))
                              (map Step [[0], [0]])) [0]))
   \<and> res_terminated (projr (snd (step toy (run toy (fst (step toy (run toy dense_example hundred_calls) [0]))
                              (map Step [[0], [0]])) [0])))
   \<and> timer (fst (step toy (run toy (fst (step toy (run toy dense_example hundred_calls) [0]))
                              (map Step [[0], [0]])) [0])) = 103"
proof -
  let ?e = "run toy dense_example hundred_calls"
  let ?e1 = "fst (step toy ?e [0])"
  let ?e' = "run toy ?e1 (map Step [[0], [0]])"
  have r1: "\<not> isl (snd (step toy ?e [0]))"
    and t1: "res_terminated (projr (snd (step toy ?e [0])))"
    and tm: "timer ?e1 = 100"
    by (simp_all add: run_hundred toy_step py_int_toy toy_env_sel)
  have s1: "step toy ?e [0] = (?e1, Inr (projr (snd (step toy ?e [0]))))"
    using r1 by (simp add: prod_eq_iff)
  have r2: "\<not> isl (snd (step toy ?e' [0]))"
    by (simp add: run_hundred toy_step)
  then have s2: "step toy ?e' [0] = (fst (step toy ?e' [0]), Inr (projr (snd (step toy ?e' [0]))))"
    by (simp add: prod_eq_iff)
  from termination_absorbing[OF s1 t1 s2] r1 t1 r2 tm show ?thesis by simp
qed

end
